theory Spec2Isabelle
  imports Complex_Main
begin

section \<open>Effects: log lines, report backend calls, driver and file-system calls\<close>

text \<open>
  The harness is glue code around external collaborators: the winston logger, the
  allure report backend, the browser driver, the file system and a child process.
  A run of a function is modelled by the sequence of calls it makes to these
  collaborators (its trace) together with its result: a returned value or a thrown
  error. What an external call answers, and whether it throws, is not decided by the
  repository; it is given by an environment that may depend on the whole history.

  Calls to the logger and to the allure backend are recorded and return normally
  (winston is created with \<^verbatim>\<open>exitOnError: false\<close>; the report backend is outside
  the model). Calls to the driver, the file system and the child process may throw.
\<close>

datatype level = Debug | Info | Warn | Error

datatype jserror = JsError (ename: string) (emessage: string)

datatype jsvalue =
    JUndefined
  | JNull
  | JBool bool
  | JNum rat
  | JStr string
  | JArr "jsvalue list"
  | JObj "(string \<times> jsvalue) list"
  | JFun string

datatype content = Str string | Buffer "nat list" | JsonText jsvalue

datatype call =
    Screenshot string bool
  | ClearCookies
  | EvaluateClearStorage
  | Locate string
  | WaitForVisible string int
  | Act string string
  | WaitForLoadState string
  | ExpectEvent string
  | WaitForDownload
  | SaveAs string
  | Exec string
  | ExistsSync string
  | RmSync string
  | RenameSync string string
  | MkdirSync string
  | ReaddirSync string
  | StatSync string
  | UnlinkSync string
  | DotenvConfig string
  | CreateWinston
  | ClosePage
  | CloseContext
  | CloseBrowser
  | OnDialog string
  | AwaitDialog

datatype event =
    Log level string
  | LogMeta level string jserror
  | AllureStep string "string option"
  | AllureAttachment string content string
  | Ext call

type_synonym trace = "event list"

record env =
  fails :: "trace \<Rightarrow> call \<Rightarrow> jserror option"
  answer_bool :: "trace \<Rightarrow> call \<Rightarrow> bool"
  answer_num :: "trace \<Rightarrow> call \<Rightarrow> int"
  answer_list :: "trace \<Rightarrow> call \<Rightarrow> string list"
  answer_str :: "trace \<Rightarrow> call \<Rightarrow> string"
  answer_text :: "trace \<Rightarrow> call \<Rightarrow> string option"

type_synonym 'a io = "trace \<Rightarrow> trace \<times> (jserror + 'a)"

definition io_return :: "'a \<Rightarrow> 'a io" where
  "io_return x tr = (tr, Inr x)"

definition io_throw :: "jserror \<Rightarrow> 'a io" where
  "io_throw e tr = (tr, Inl e)"

definition io_bind :: "'a io \<Rightarrow> ('a \<Rightarrow> 'b io) \<Rightarrow> 'b io" where
  "io_bind m f tr = (case m tr of (tr', Inl e) \<Rightarrow> (tr', Inl e) | (tr', Inr x) \<Rightarrow> f x tr')"

definition io_then :: "unit io \<Rightarrow> 'b io \<Rightarrow> 'b io" where
  "io_then m k = io_bind m (\<lambda>_. k)"

definition io_catch :: "'a io \<Rightarrow> (jserror \<Rightarrow> 'a io) \<Rightarrow> 'a io" where
  "io_catch m h tr = (case m tr of (tr', Inl e) \<Rightarrow> h e tr' | (tr', Inr x) \<Rightarrow> (tr', Inr x))"

definition io_when :: "bool \<Rightarrow> unit io \<Rightarrow> unit io" where
  "io_when b m = (if b then m else io_return ())"

definition emit :: "event \<Rightarrow> unit io" where
  "emit ev tr = (tr @ [ev], Inr ())"

text \<open>An external call that may throw; one that answers a boolean; one that cannot throw.\<close>

definition ext :: "env \<Rightarrow> call \<Rightarrow> unit io" where
  "ext en c tr = (tr @ [Ext c], case fails en tr c of None \<Rightarrow> Inr () | Some e \<Rightarrow> Inl e)"

definition ext_total_bool :: "env \<Rightarrow> call \<Rightarrow> bool io" where
  "ext_total_bool en c tr = (tr @ [Ext c], Inr (answer_bool en tr c))"

definition ext_num :: "env \<Rightarrow> call \<Rightarrow> int io" where
  "ext_num en c tr =
     (tr @ [Ext c], case fails en tr c of None \<Rightarrow> Inr (answer_num en tr c) | Some e \<Rightarrow> Inl e)"

definition ext_list :: "env \<Rightarrow> call \<Rightarrow> string list io" where
  "ext_list en c tr =
     (tr @ [Ext c], case fails en tr c of None \<Rightarrow> Inr (answer_list en tr c) | Some e \<Rightarrow> Inl e)"

definition ext_str :: "env \<Rightarrow> call \<Rightarrow> string io" where
  "ext_str en c tr =
     (tr @ [Ext c], case fails en tr c of None \<Rightarrow> Inr (answer_str en tr c) | Some e \<Rightarrow> Inl e)"

definition ext_text :: "env \<Rightarrow> call \<Rightarrow> string option io" where
  "ext_text en c tr =
     (tr @ [Ext c], case fails en tr c of None \<Rightarrow> Inr (answer_text en tr c) | Some e \<Rightarrow> Inl e)"

section \<open>Logger (logger.ts): the wrappers around winston\<close>

definition logger_debug :: "string \<Rightarrow> unit io" where
  "logger_debug m = emit (Log Debug m)"

definition logger_info :: "string \<Rightarrow> unit io" where
  "logger_info m = emit (Log Info m)"

definition logger_warn :: "string \<Rightarrow> unit io" where
  "logger_warn m = emit (Log Warn m)"

definition logger_error :: "string \<Rightarrow> unit io" where
  "logger_error m = emit (Log Error m)"

definition logger_warn_meta :: "string \<Rightarrow> jserror \<Rightarrow> unit io" where
  "logger_warn_meta m e = emit (LogMeta Warn m e)"

definition logger_error_meta :: "string \<Rightarrow> jserror \<Rightarrow> unit io" where
  "logger_error_meta m e = emit (LogMeta Error m e)"

definition logger_pass :: "string \<Rightarrow> unit io" where
  "logger_pass m = emit (Log Info (''[PASS] '' @ m))"

definition logger_fail :: "string \<Rightarrow> unit io" where
  "logger_fail m = emit (Log Error (''[FAIL] '' @ m))"

section \<open>AllureReporter (allure-reporter.ts): steps and attachments\<close>

text \<open>
  \<^verbatim>\<open>addStep\<close> hands the backend a callback whose only effect is a debug log of the step
  details when they are truthy; the event keeps the details the callback would log.
\<close>

definition truthy_str :: "string option \<Rightarrow> bool" where
  "truthy_str s = (case s of None \<Rightarrow> False | Some t \<Rightarrow> t \<noteq> [])"

definition allure_addStep :: "string \<Rightarrow> string option \<Rightarrow> unit io" where
  "allure_addStep stepName stepDetails =
     io_then (logger_info (''ALLURE: Adding step: '' @ stepName))
             (emit (AllureStep stepName (if truthy_str stepDetails then stepDetails else None)))"

definition allure_addAttachment :: "string \<Rightarrow> content \<Rightarrow> string \<Rightarrow> unit io" where
  "allure_addAttachment name c ty =
     io_then (logger_debug (''ALLURE: Adding attachment: '' @ name @ '' ('' @ ty @ '')''))
             (emit (AllureAttachment name c ty))"

definition allure_addJSONAttachment :: "string \<Rightarrow> jsvalue \<Rightarrow> unit io" where
  "allure_addJSONAttachment name d =
     io_then (logger_debug (''ALLURE: Adding JSON attachment: '' @ name))
             (emit (AllureAttachment name (JsonText d) ''application/json''))"

section \<open>TestDataUtils (test-data-utils.ts)\<close>

text \<open>
  The imported JSON object is a parameter: a map from property names to values, holding
  every property that \<^verbatim>\<open>obj[key]\<close> and \<^verbatim>\<open>key in obj\<close> can see. A missing
  property reads as \<^verbatim>\<open>undefined\<close>, which is falsy.
\<close>

fun truthy :: "jsvalue \<Rightarrow> bool" where
  "truthy JUndefined = False"
| "truthy JNull = False"
| "truthy (JBool b) = b"
| "truthy (JNum n) = (n \<noteq> 0)"
| "truthy (JStr s) = (s \<noteq> [])"
| "truthy (JArr xs) = True"
| "truthy (JObj kvs) = True"
| "truthy (JFun f) = True"

definition get_prop :: "(string \<rightharpoonup> jsvalue) \<Rightarrow> string \<Rightarrow> jsvalue" where
  "get_prop obj key = (case obj key of None \<Rightarrow> JUndefined | Some v \<Rightarrow> v)"

definition has_prop :: "(string \<rightharpoonup> jsvalue) \<Rightarrow> string \<Rightarrow> bool" where
  "has_prop obj key = (obj key \<noteq> None)"

definition new_Error :: "string \<Rightarrow> jserror" where
  "new_Error m = JsError ''Error'' m"

definition getTestData :: "(string \<rightharpoonup> jsvalue) \<Rightarrow> string \<Rightarrow> jsvalue io" where
  "getTestData testDataJson key =
     io_then (logger_debug (''Getting test data for key: '' @ key))
    (io_then (allure_addStep (''Getting test data for key: '' @ key) None)
    (if \<not> truthy (get_prop testDataJson key) then
       io_then (logger_error (''Test data not found for key: '' @ key))
      (io_then (allure_addStep (''Test data not found for key: '' @ key) None)
               (io_throw (new_Error (''Test data not found for key: '' @ key))))
     else
       (let d = get_prop testDataJson key in
        io_then (logger_debug (''Successfully retrieved test data for key: '' @ key))
       (io_then (allure_addStep (''Successfully retrieved test data for key: '' @ key) None)
                (io_return d)))))"

definition show_bool :: "bool \<Rightarrow> string" where
  "show_bool b = (if b then ''true'' else ''false'')"

definition hasTestDataKey :: "(string \<rightharpoonup> jsvalue) \<Rightarrow> string \<Rightarrow> bool io" where
  "hasTestDataKey testDataJson key =
     io_then (logger_debug (''Checking if test data key exists: '' @ key))
    (io_then (allure_addStep (''Checking if test data key exists: '' @ key) None)
    (let exists = has_prop testDataJson key in
     io_then (logger_debug (''Test data key '' @ [CHR 0x27] @ key @ [CHR 0x27] @ '' exists: ''
                            @ show_bool exists))
             (io_return exists)))"

section \<open>Decimal rendering of numbers in template strings and toString\<close>

definition digit_char :: "nat \<Rightarrow> char" where
  "digit_char n = ''0123456789'' ! n"

fun show_nat :: "nat \<Rightarrow> string" where
  "show_nat n = (if n < 10 then [digit_char n] else show_nat (n div 10) @ [digit_char (n mod 10)])"

definition show_int :: "int \<Rightarrow> string" where
  "show_int i = (if i < 0 then ''-'' @ show_nat (nat (- i)) else show_nat (nat i))"

section \<open>CommonUtils (common-utils.ts): random numbers\<close>

text \<open>
  JS numbers are IEEE doubles; the ones met here are fractions. \<^verbatim>\<open>Math.random()\<close> is a
  parameter: \<open>rnd i\<close> is the value of the \<open>i\<close>-th draw made during the call, a double in
  \<open>[0, 1)\<close>, hence at most \<open>1 - 2\<^sup>-\<^sup>5\<^sup>3\<close>. The product of a draw with 9 or 10 is the
  exact product rounded to the nearest double, ties to even: \<open>quantum x\<close> is the spacing
  of the doubles around \<open>x\<close> for \<open>0 \<le> x < 16\<close>, that is \<open>2\<^sup>-\<^sup>4\<^sup>9\<close> in \<open>[8, 16)\<close>, halved in
  each binade below, down to the subnormal spacing \<open>2\<^sup>-\<^sup>1\<^sup>0\<^sup>7\<^sup>4\<close>. Flooring, the loop
  counter and the running sum are whole numbers far below \<open>2\<^sup>5\<^sup>3\<close> and exact; such a
  number prints as its decimal digits.

  The count is any finite JS number, a fraction. Only the log lines print it; how JS
  prints a number is the parameter \<open>render\<close>.
\<close>

definition round_half_even :: "rat \<Rightarrow> int" where
  "round_half_even y =
     (let f = \<lfloor>y\<rfloor>; d = y - of_int f
      in if d < 1 / 2 then f else if 1 / 2 < d then f + 1 else if even f then f else f + 1)"

fun quantum_search :: "nat \<Rightarrow> rat \<Rightarrow> rat \<Rightarrow> rat \<Rightarrow> rat" where
  "quantum_search 0 b q x = q"
| "quantum_search (Suc n) b q x = (if b \<le> x then q else quantum_search n (b / 2) (q / 2) x)"

definition quantum :: "rat \<Rightarrow> rat" where
  "quantum x = quantum_search 1025 8 (1 / 2 ^ 49) x"

definition double_mult :: "rat \<Rightarrow> rat \<Rightarrow> rat" where
  "double_mult a b = of_int (round_half_even (a * b / quantum (a * b))) * quantum (a * b)"

function sum_loop :: "(nat \<Rightarrow> rat) \<Rightarrow> int \<Rightarrow> rat \<Rightarrow> int \<Rightarrow> int" where
  "sum_loop rnd i count result =
     (if of_int i < count
      then sum_loop rnd (i + 1) count (result + \<lfloor>double_mult (rnd (nat i)) 10\<rfloor>)
      else result)"
  by pat_completeness auto
termination
  by (relation "measure (\<lambda>(rnd, i, count, result). nat (\<lceil>count\<rceil> - i))")
     (auto simp: less_ceiling_iff)


function concat_loop :: "(nat \<Rightarrow> rat) \<Rightarrow> int \<Rightarrow> rat \<Rightarrow> string \<Rightarrow> string" where
  "concat_loop rnd i len result =
     (if of_int i < len
      then concat_loop rnd (i + 1) len (result @ show_int \<lfloor>double_mult (rnd (nat i)) 10\<rfloor>)
      else result)"
  by pat_completeness auto
termination
  by (relation "measure (\<lambda>(rnd, i, len, result). nat (\<lceil>len\<rceil> - i))")
     (auto simp: less_ceiling_iff)





section \<open>Logger.getInstance (logger.ts): the lazily created static instance\<close>

text \<open>
  Logger objects are told apart by their identity, a number handed out at allocation.
  The static field \<^verbatim>\<open>Logger.instance\<close> (here \<open>Logger_instance\<close>, as \<open>instance\<close>
  is a reserved word) is private: only \<^verbatim>\<open>getInstance\<close> writes it. The constructor is public and is also called directly by the fixtures and the global
  hooks; it creates the logs directory when absent and builds the winston logger.
\<close>

record logger_static =
  Logger_instance :: "nat option"
  next_object :: nat

definition ensureLogsDirectory :: "env \<Rightarrow> unit io" where
  "ensureLogsDirectory en =
     io_bind (ext_total_bool en (ExistsSync ''logs''))
       (\<lambda>present. io_when (\<not> present) (ext en (MkdirSync ''logs'')))"

definition createLogger :: "env \<Rightarrow> unit io" where
  "createLogger en = io_then (ensureLogsDirectory en) (ext en CreateWinston)"

definition new_Logger :: "env \<Rightarrow> logger_static \<Rightarrow> (logger_static \<times> nat) io" where
  "new_Logger en st =
     io_then (createLogger en)
             (io_return (st\<lparr>next_object := Suc (next_object st)\<rparr>, next_object st))"

definition getInstance :: "env \<Rightarrow> logger_static \<Rightarrow> (logger_static \<times> nat) io" where
  "getInstance en st =
     (case Logger_instance st of
        None \<Rightarrow> io_bind (new_Logger en st) (\<lambda>(st', l). io_return (st'\<lparr>Logger_instance := Some l\<rparr>, l))
      | Some l \<Rightarrow> io_return (st, l))"

datatype logger_op = GetInstance | NewLogger

text \<open>
  A run of logger operations: the object each operation returned (\<open>None\<close> when it threw)
  and the static state afterwards.
\<close>

fun run_logger_ops ::
  "env \<Rightarrow> logger_op list \<Rightarrow> logger_static \<Rightarrow> trace \<Rightarrow> (logger_op \<times> nat option) list \<times> logger_static"
where
  "run_logger_ops en [] st tr = ([], st)"
| "run_logger_ops en (opr # ops) st tr =
     (case (case opr of GetInstance \<Rightarrow> getInstance en st tr | NewLogger \<Rightarrow> new_Logger en st tr) of
        (tr', Inl e) \<Rightarrow>
          (case run_logger_ops en ops st tr' of (rs, st'') \<Rightarrow> ((opr, None) # rs, st''))
      | (tr', Inr (st', l)) \<Rightarrow>
          (case run_logger_ops en ops st' tr' of (rs, st'') \<Rightarrow> ((opr, Some l) # rs, st'')))"

fun returns_only :: "nat \<Rightarrow> (logger_op \<times> nat option) list \<Rightarrow> bool" where
  "returns_only l [] = True"
| "returns_only l ((GetInstance, r) # rs) = (r = Some l \<and> returns_only l rs)"
| "returns_only l ((NewLogger, r) # rs) = returns_only l rs"

section \<open>BaseReporter (base-reporter.ts): the current Test Record\<close>

text \<open>
  Test Records are objects: \<^verbatim>\<open>getCurrentTest()\<close> hands out a reference, and
  \<^verbatim>\<open>endTest\<close> writes the record through \<^verbatim>\<open>this.currentTest\<close> before it drops
  the reference. The records live in a store indexed by their address; the reporter holds
  the address of the current one. \<^verbatim>\<open>Date.now()\<close> is an argument of the calls that read
  the clock.
\<close>

datatype status = PASSED | FAILED | SKIPPED | BROKEN

record TestResult =
  testId :: string
  testName :: string
  suite :: string
  status :: status
  startTime :: int
  endTime :: int
  duration :: int
  error :: "string option"

record reporter =
  currentTest :: "nat option"
  store :: "TestResult list"

fun show_status :: "status \<Rightarrow> string" where
  "show_status PASSED = ''PASSED''"
| "show_status FAILED = ''FAILED''"
| "show_status SKIPPED = ''SKIPPED''"
| "show_status BROKEN = ''BROKEN''"

definition or_undefined :: "string option \<Rightarrow> string option" where
  "or_undefined s = (if truthy_str s then s else None)"

definition startTest :: "reporter \<Rightarrow> string \<Rightarrow> string \<Rightarrow> string \<Rightarrow> int \<Rightarrow> reporter io" where
  "startTest r tid tname suiteName now =
     (let r' = r\<lparr>currentTest := Some (length (store r)),
                 store := store r @
                   [\<lparr>testId = tid, testName = tname, suite = suiteName, status = PASSED,
                     startTime = now, endTime = 0, duration = 0, error = None\<rparr>]\<rparr>
      in io_then (logger_info (''Test started: '' @ tname)) (io_return r'))"

definition endTest :: "reporter \<Rightarrow> status \<Rightarrow> string option \<Rightarrow> int \<Rightarrow> reporter io" where
  "endTest r st err now =
     (case currentTest r of
        None \<Rightarrow> io_return r
      | Some a \<Rightarrow>
          (let t = store r ! a;
               t = t\<lparr>endTime := now\<rparr>;
               t = t\<lparr>duration := endTime t - startTime t\<rparr>;
               t = t\<lparr>status := st\<rparr>;
               t = t\<lparr>error := or_undefined err\<rparr>
           in io_then (logger_info (''Test ended: '' @ testName t @ '' - Status: '' @ show_status st))
                      (io_return (r\<lparr>store := (store r)[a := t], currentTest := None\<rparr>))))"

definition base_addAttachment ::
  "reporter \<Rightarrow> string \<Rightarrow> content \<Rightarrow> string \<Rightarrow> string option \<Rightarrow> reporter io" where
  "base_addAttachment r name c ty filePath =
     io_then (logger_debug (''Attachment added: '' @ name @ '' ('' @ ty @ '')''))
    (io_then (io_when (truthy_str filePath)
                (logger_debug (''File path: '' @ (case filePath of None \<Rightarrow> [] | Some p \<Rightarrow> p))))
             (io_return r))"

definition getCurrentTest :: "reporter \<Rightarrow> nat option" where
  "getCurrentTest r = currentTest r"

datatype reporter_call =
    StartTest string string string int
  | EndTest status "string option" int
  | AddAttachment string content string "string option"
  | GetCurrentTest

fun run_call :: "reporter \<Rightarrow> reporter_call \<Rightarrow> reporter io" where
  "run_call r (StartTest tid tname suiteName now) = startTest r tid tname suiteName now"
| "run_call r (EndTest st err now) = endTest r st err now"
| "run_call r (AddAttachment name c ty fp) = base_addAttachment r name c ty fp"
| "run_call r GetCurrentTest = io_return r"

fun run_calls :: "reporter \<Rightarrow> reporter_call list \<Rightarrow> reporter io" where
  "run_calls r [] = io_return r"
| "run_calls r (c # cs) = io_bind (run_call r c) (\<lambda>r'. run_calls r' cs)"

fun is_start :: "reporter_call \<Rightarrow> bool" where
  "is_start (StartTest tid tname suiteName now) = True"
| "is_start c = False"

fun is_end :: "reporter_call \<Rightarrow> bool" where
  "is_end (EndTest st err now) = True"
| "is_end c = False"

section \<open>AllureReporter as a Reporting Adapter: calls on a reporter object\<close>

text \<open>
  AllureReporter inherits \<^verbatim>\<open>endTest\<close> and the current-test field from BaseReporter;
  its \<^verbatim>\<open>addStep\<close> and its override of \<^verbatim>\<open>addAttachment\<close> never read that field.
\<close>

datatype adapter_call =
    AEndTest status "string option" int
  | AAddStep string "string option"
  | AAddAttachment string content string

fun run_adapter_call :: "reporter \<Rightarrow> adapter_call \<Rightarrow> reporter io" where
  "run_adapter_call r (AEndTest st err now) = endTest r st err now"
| "run_adapter_call r (AAddStep n d) = io_then (allure_addStep n d) (io_return r)"
| "run_adapter_call r (AAddAttachment n c ty) = io_then (allure_addAttachment n c ty) (io_return r)"

fun is_warning :: "event \<Rightarrow> bool" where
  "is_warning (Log Warn m) = True"
| "is_warning ev = False"

section \<open>ActionUtils (action-utils.ts): one UI action after a visibility wait\<close>

text \<open>
  The options bag carries the page handle, the timeout and the text that
  \<^verbatim>\<open>fillAndType\<close> types; the options passed through to the driver do not influence
  the control flow and are left out. An element is given by a selector string or by a
  locator; a locator is named by the selector it stands for. Building a locator from a
  selector is recorded as a driver call that cannot throw; waiting and acting can throw.
  \<^verbatim>\<open>downloadFile\<close> starts listening for the download before it clicks (a call that
  returns a promise and cannot throw) and awaits the download after the click. The dialog utilities take an element
  and an options bag as well, but only register a handler on the page;
  \<^verbatim>\<open>getAlertText\<close> returns a promise that settles when a dialog appears: its result is
  \<open>None\<close> when none ever does.
\<close>

record options =
  page :: "nat option"
  timeout :: "int option"
  additionalText :: "string option"

datatype input = Selector string | Handle string

definition locator_of :: "input \<Rightarrow> string" where
  "locator_of i = (case i of Selector s \<Rightarrow> s | Handle l \<Rightarrow> l)"

definition resolve :: "input \<Rightarrow> string io" where
  "resolve i =
     (case i of Selector s \<Rightarrow> io_then (emit (Ext (Locate s))) (io_return s)
              | Handle l \<Rightarrow> io_return l)"

definition timeout_or_default :: "options \<Rightarrow> int" where
  "timeout_or_default opts =
     (case timeout opts of None \<Rightarrow> 30000 | Some t \<Rightarrow> if t = 0 then 30000 else t)"

definition getLocatorWithStableAndVisibleOptions :: "env \<Rightarrow> input \<Rightarrow> options \<Rightarrow> string io" where
  "getLocatorWithStableAndVisibleOptions en i opts =
     (case page opts of
        None \<Rightarrow> io_throw (new_Error ''Page is required for locator operations'')
      | Some p \<Rightarrow>
          io_bind (resolve i) (\<lambda>locator.
          io_then (ext en (WaitForVisible locator (timeout_or_default opts)))
                  (io_return locator)))"

definition click :: "env \<Rightarrow> input \<Rightarrow> options \<Rightarrow> unit io" where
  "click en i opts =
     io_then (logger_info (''Click: '' @ (case i of Selector s \<Rightarrow> s | Handle l \<Rightarrow> ''locator'')))
    (io_then (allure_addStep ''Click element'' None)
    (io_bind (getLocatorWithStableAndVisibleOptions en i opts) (\<lambda>locator.
     ext en (Act locator ''click''))))"

definition clickAndNavigate :: "env \<Rightarrow> input \<Rightarrow> options \<Rightarrow> unit io" where
  "clickAndNavigate en i opts =
     io_bind (getLocatorWithStableAndVisibleOptions en i opts) (\<lambda>locator.
     io_then (ext en (Act locator ''click''))
             (io_when (page opts \<noteq> None) (ext en (WaitForLoadState ''networkidle''))))"

definition clickByJS :: "env \<Rightarrow> input \<Rightarrow> options \<Rightarrow> unit io" where
  "clickByJS en i opts =
     io_bind (getLocatorWithStableAndVisibleOptions en i opts) (\<lambda>locator.
     ext en (Act locator ''evaluate: element.click()''))"

definition fill :: "env \<Rightarrow> input \<Rightarrow> string \<Rightarrow> options \<Rightarrow> unit io" where
  "fill en i v opts =
     io_then (logger_info (''Fill: '' @ v))
    (io_then (allure_addStep (''Fill input: '' @ v) None)
    (io_bind (getLocatorWithStableAndVisibleOptions en i opts) (\<lambda>locator.
     ext en (Act locator (''fill: '' @ v)))))"

definition fillAndEnter :: "env \<Rightarrow> input \<Rightarrow> string \<Rightarrow> options \<Rightarrow> unit io" where
  "fillAndEnter en i v opts =
     io_bind (getLocatorWithStableAndVisibleOptions en i opts) (\<lambda>locator.
     io_then (ext en (Act locator (''fill: '' @ v)))
             (ext en (Act locator ''press: Enter'')))"

definition fillAndTab :: "env \<Rightarrow> input \<Rightarrow> string \<Rightarrow> options \<Rightarrow> unit io" where
  "fillAndTab en i v opts =
     io_bind (getLocatorWithStableAndVisibleOptions en i opts) (\<lambda>locator.
     io_then (ext en (Act locator (''fill: '' @ v)))
             (ext en (Act locator ''press: Tab'')))"

definition fillAndType :: "env \<Rightarrow> input \<Rightarrow> string \<Rightarrow> options \<Rightarrow> unit io" where
  "fillAndType en i v opts =
     io_bind (getLocatorWithStableAndVisibleOptions en i opts) (\<lambda>locator.
     io_then (ext en (Act locator (''fill: '' @ v)))
             (ext en (Act locator (''type: '' @
                (case or_undefined (additionalText opts) of None \<Rightarrow> [] | Some t \<Rightarrow> t)))))"

definition pressSequentially :: "env \<Rightarrow> input \<Rightarrow> string \<Rightarrow> options \<Rightarrow> unit io" where
  "pressSequentially en i v opts =
     io_bind (getLocatorWithStableAndVisibleOptions en i opts) (\<lambda>locator.
     ext en (Act locator (''pressSequentially: '' @ v)))"

definition clear :: "env \<Rightarrow> input \<Rightarrow> options \<Rightarrow> unit io" where
  "clear en i opts =
     io_bind (getLocatorWithStableAndVisibleOptions en i opts) (\<lambda>locator.
     ext en (Act locator ''clear''))"

definition clearByJS :: "env \<Rightarrow> input \<Rightarrow> options \<Rightarrow> unit io" where
  "clearByJS en i opts =
     io_bind (getLocatorWithStableAndVisibleOptions en i opts) (\<lambda>locator.
     ext en (Act locator ''evaluate: clear value, dispatch input''))"

definition check :: "env \<Rightarrow> input \<Rightarrow> options \<Rightarrow> unit io" where
  "check en i opts =
     io_then (logger_info ''Check element'')
    (io_bind (getLocatorWithStableAndVisibleOptions en i opts) (\<lambda>locator.
     ext en (Act locator ''check'')))"

definition uncheck :: "env \<Rightarrow> input \<Rightarrow> options \<Rightarrow> unit io" where
  "uncheck en i opts =
     io_bind (getLocatorWithStableAndVisibleOptions en i opts) (\<lambda>locator.
     ext en (Act locator ''uncheck''))"

definition selectByValue :: "env \<Rightarrow> input \<Rightarrow> string \<Rightarrow> options \<Rightarrow> unit io" where
  "selectByValue en i v opts =
     io_then (logger_info (''Select: '' @ v))
    (io_then (allure_addStep (''Select option: '' @ v) None)
    (io_bind (getLocatorWithStableAndVisibleOptions en i opts) (\<lambda>locator.
     ext en (Act locator (''selectOption value: '' @ v)))))"

definition selectByValues :: "env \<Rightarrow> input \<Rightarrow> string list \<Rightarrow> options \<Rightarrow> unit io" where
  "selectByValues en i vs opts =
     io_bind (getLocatorWithStableAndVisibleOptions en i opts) (\<lambda>locator.
     ext en (Act locator (''selectOption values: '' @ concat (map (\<lambda>v. v @ '','') vs))))"

definition selectByText :: "env \<Rightarrow> input \<Rightarrow> string \<Rightarrow> options \<Rightarrow> unit io" where
  "selectByText en i t opts =
     io_bind (getLocatorWithStableAndVisibleOptions en i opts) (\<lambda>locator.
     ext en (Act locator (''selectOption label: '' @ t)))"

definition selectByIndex :: "env \<Rightarrow> input \<Rightarrow> int \<Rightarrow> options \<Rightarrow> unit io" where
  "selectByIndex en i n opts =
     io_bind (getLocatorWithStableAndVisibleOptions en i opts) (\<lambda>locator.
     ext en (Act locator (''selectOption index: '' @ show_int n)))"

definition hover :: "env \<Rightarrow> input \<Rightarrow> options \<Rightarrow> unit io" where
  "hover en i opts =
     io_then (logger_info ''Hover element'')
    (io_bind (getLocatorWithStableAndVisibleOptions en i opts) (\<lambda>locator.
     ext en (Act locator ''hover'')))"

definition focus :: "env \<Rightarrow> input \<Rightarrow> options \<Rightarrow> unit io" where
  "focus en i opts =
     io_bind (getLocatorWithStableAndVisibleOptions en i opts) (\<lambda>locator.
     ext en (Act locator ''focus''))"

definition dragAndDrop :: "env \<Rightarrow> input \<Rightarrow> input \<Rightarrow> options \<Rightarrow> unit io" where
  "dragAndDrop en i dest opts =
     io_bind (getLocatorWithStableAndVisibleOptions en i opts) (\<lambda>sourceLocator.
     io_bind (resolve dest) (\<lambda>destLocator.
     ext en (Act sourceLocator (''dragTo: '' @ destLocator))))"

definition doubleClick :: "env \<Rightarrow> input \<Rightarrow> options \<Rightarrow> unit io" where
  "doubleClick en i opts =
     io_bind (getLocatorWithStableAndVisibleOptions en i opts) (\<lambda>locator.
     ext en (Act locator ''dblclick''))"

definition downloadFile :: "env \<Rightarrow> input \<Rightarrow> string \<Rightarrow> options \<Rightarrow> unit io" where
  "downloadFile en i path opts =
     io_bind (getLocatorWithStableAndVisibleOptions en i opts) (\<lambda>locator.
     io_then (emit (Ext (ExpectEvent ''download'')))
    (io_then (ext en (Act locator ''click''))
    (io_then (ext en WaitForDownload)
             (ext en (SaveAs path)))))"

definition uploadFiles :: "env \<Rightarrow> input \<Rightarrow> string list \<Rightarrow> options \<Rightarrow> unit io" where
  "uploadFiles en i paths opts =
     io_bind (getLocatorWithStableAndVisibleOptions en i opts) (\<lambda>locator.
     ext en (Act locator (''setInputFiles: '' @ concat (map (\<lambda>p. p @ '','') paths))))"

definition scrollLocatorIntoView :: "env \<Rightarrow> input \<Rightarrow> options \<Rightarrow> unit io" where
  "scrollLocatorIntoView en i opts =
     io_bind (getLocatorWithStableAndVisibleOptions en i opts) (\<lambda>locator.
     ext en (Act locator ''scrollIntoViewIfNeeded''))"

definition scrollToElement :: "env \<Rightarrow> input \<Rightarrow> options \<Rightarrow> unit io" where
  "scrollToElement en i opts =
     io_bind (getLocatorWithStableAndVisibleOptions en i opts) (\<lambda>locator.
     ext en (Act locator ''scrollIntoViewIfNeeded''))"

definition setElementValue :: "env \<Rightarrow> input \<Rightarrow> string \<Rightarrow> options \<Rightarrow> unit io" where
  "setElementValue en i v opts =
     io_bind (getLocatorWithStableAndVisibleOptions en i opts) (\<lambda>locator.
     ext en (Act locator (''fill: '' @ v)))"

definition triggerEvent :: "env \<Rightarrow> input \<Rightarrow> string \<Rightarrow> options \<Rightarrow> unit io" where
  "triggerEvent en i eventType opts =
     io_bind (getLocatorWithStableAndVisibleOptions en i opts) (\<lambda>locator.
     ext en (Act locator (''evaluate: dispatchEvent '' @ eventType)))"

definition getElementTextContent :: "env \<Rightarrow> input \<Rightarrow> options \<Rightarrow> string io" where
  "getElementTextContent en i opts =
     io_then (logger_info ''Get text content'')
    (io_bind (getLocatorWithStableAndVisibleOptions en i opts) (\<lambda>locator.
     io_bind (ext_text en (Act locator ''textContent'')) (\<lambda>textContent.
     io_return (case or_undefined textContent of None \<Rightarrow> [] | Some t \<Rightarrow> t))))"

definition getElementInnerHTML :: "env \<Rightarrow> input \<Rightarrow> options \<Rightarrow> string io" where
  "getElementInnerHTML en i opts =
     io_bind (getLocatorWithStableAndVisibleOptions en i opts) (\<lambda>locator.
     io_bind (ext_str en (Act locator ''innerHTML'')) (\<lambda>innerHTML.
     io_return innerHTML))"

definition getElementOuterHTML :: "env \<Rightarrow> input \<Rightarrow> options \<Rightarrow> string io" where
  "getElementOuterHTML en i opts =
     io_bind (getLocatorWithStableAndVisibleOptions en i opts) (\<lambda>locator.
     io_bind (ext_str en (Act locator ''evaluate: el.outerHTML'')) (\<lambda>outerHTML.
     io_return outerHTML))"

definition getElementValue :: "env \<Rightarrow> input \<Rightarrow> options \<Rightarrow> string io" where
  "getElementValue en i opts =
     io_bind (getLocatorWithStableAndVisibleOptions en i opts) (\<lambda>locator.
     io_bind (ext_str en (Act locator ''inputValue'')) (\<lambda>v.
     io_return v))"

definition acceptAlert :: "env \<Rightarrow> input \<Rightarrow> options \<Rightarrow> unit io" where
  "acceptAlert en i opts =
     (case page opts of
        None \<Rightarrow> io_throw (new_Error ''Page is required for alert operations'')
      | Some p \<Rightarrow> emit (Ext (OnDialog ''accept'')))"

definition dismissAlert :: "env \<Rightarrow> input \<Rightarrow> options \<Rightarrow> unit io" where
  "dismissAlert en i opts =
     (case page opts of
        None \<Rightarrow> io_throw (new_Error ''Page is required for alert operations'')
      | Some p \<Rightarrow> emit (Ext (OnDialog ''dismiss'')))"

definition getAlertText :: "env \<Rightarrow> input \<Rightarrow> options \<Rightarrow> string option io" where
  "getAlertText en i opts =
     (case page opts of
        None \<Rightarrow> io_throw (new_Error ''Page is required for alert operations'')
      | Some p \<Rightarrow>
          io_then (emit (Ext (OnDialog ''message, accept'')))
                  (\<lambda>tr. (tr @ [Ext AwaitDialog], Inr (answer_text en tr AwaitDialog))))"

text \<open>
  Every utility of the class that takes an element and an options bag, as one function;
  a value that a getter returns is dropped. For \<^verbatim>\<open>getAlertText\<close> the run stands for
  the call up to its await: whether the promise settles is the result of
  \<^verbatim>\<open>getAlertText\<close> itself.
\<close>

datatype action =
    Click | ClickAndNavigate | ClickByJS
  | Fill string | FillAndEnter string | FillAndTab string | FillAndType string
  | PressSequentially string | Clear | ClearByJS
  | Check | Uncheck
  | SelectByValue string | SelectByValues "string list" | SelectByText string | SelectByIndex int
  | AcceptAlert | DismissAlert | GetAlertText
  | Hover | Focus | DragAndDrop input | DoubleClick
  | DownloadFile string | UploadFiles "string list"
  | ScrollLocatorIntoView | ScrollToElement
  | GetElementTextContent | GetElementInnerHTML | GetElementOuterHTML | GetElementValue
  | SetElementValue string | TriggerEvent string

fun run_action :: "env \<Rightarrow> action \<Rightarrow> input \<Rightarrow> options \<Rightarrow> unit io" where
  "run_action en Click i opts = click en i opts"
| "run_action en ClickAndNavigate i opts = clickAndNavigate en i opts"
| "run_action en ClickByJS i opts = clickByJS en i opts"
| "run_action en (Fill v) i opts = fill en i v opts"
| "run_action en (FillAndEnter v) i opts = fillAndEnter en i v opts"
| "run_action en (FillAndTab v) i opts = fillAndTab en i v opts"
| "run_action en (FillAndType v) i opts = fillAndType en i v opts"
| "run_action en (PressSequentially v) i opts = pressSequentially en i v opts"
| "run_action en Clear i opts = clear en i opts"
| "run_action en ClearByJS i opts = clearByJS en i opts"
| "run_action en Check i opts = check en i opts"
| "run_action en Uncheck i opts = uncheck en i opts"
| "run_action en (SelectByValue v) i opts = selectByValue en i v opts"
| "run_action en (SelectByValues vs) i opts = selectByValues en i vs opts"
| "run_action en (SelectByText t) i opts = selectByText en i t opts"
| "run_action en (SelectByIndex n) i opts = selectByIndex en i n opts"
| "run_action en AcceptAlert i opts = acceptAlert en i opts"
| "run_action en DismissAlert i opts = dismissAlert en i opts"
| "run_action en GetAlertText i opts = io_bind (getAlertText en i opts) (\<lambda>t. io_return ())"
| "run_action en Hover i opts = hover en i opts"
| "run_action en Focus i opts = focus en i opts"
| "run_action en (DragAndDrop dest) i opts = dragAndDrop en i dest opts"
| "run_action en DoubleClick i opts = doubleClick en i opts"
| "run_action en (DownloadFile path) i opts = downloadFile en i path opts"
| "run_action en (UploadFiles paths) i opts = uploadFiles en i paths opts"
| "run_action en ScrollLocatorIntoView i opts = scrollLocatorIntoView en i opts"
| "run_action en ScrollToElement i opts = scrollToElement en i opts"
| "run_action en GetElementTextContent i opts =
     io_bind (getElementTextContent en i opts) (\<lambda>t. io_return ())"
| "run_action en GetElementInnerHTML i opts =
     io_bind (getElementInnerHTML en i opts) (\<lambda>t. io_return ())"
| "run_action en GetElementOuterHTML i opts =
     io_bind (getElementOuterHTML en i opts) (\<lambda>t. io_return ())"
| "run_action en GetElementValue i opts =
     io_bind (getElementValue en i opts) (\<lambda>t. io_return ())"
| "run_action en (SetElementValue v) i opts = setElementValue en i v opts"
| "run_action en (TriggerEvent t) i opts = triggerEvent en i t opts"

text \<open>The driver calls of a trace, in order.\<close>

fun driver_calls :: "trace \<Rightarrow> call list" where
  "driver_calls [] = []"
| "driver_calls (Ext c # evs) = c # driver_calls evs"
| "driver_calls (ev # evs) = driver_calls evs"

definition resolve_calls :: "input \<Rightarrow> call list" where
  "resolve_calls i = (case i of Selector s \<Rightarrow> [Locate s] | Handle l \<Rightarrow> [])"

text \<open>
  The vocabulary of the claim about these utilities: which of them act on the element
  (all but the three dialog utilities), what a utility logs before it looks at its
  options, which driver calls it makes between the wait and its action
  (\<^verbatim>\<open>dragAndDrop\<close> resolves the destination, \<^verbatim>\<open>downloadFile\<close> starts listening for the
  download), and the first driver call of its action.
\<close>

fun acts_on_element :: "action \<Rightarrow> bool" where
  "acts_on_element AcceptAlert = False"
| "acts_on_element DismissAlert = False"
| "acts_on_element GetAlertText = False"
| "acts_on_element a = True"

fun announced :: "action \<Rightarrow> input \<Rightarrow> trace" where
  "announced Click i =
     [Log Info (''Click: '' @ (case i of Selector s \<Rightarrow> s | Handle l \<Rightarrow> ''locator'')),
      Log Info ''ALLURE: Adding step: Click element'', AllureStep ''Click element'' None]"
| "announced (Fill v) i =
     [Log Info (''Fill: '' @ v),
      Log Info (''ALLURE: Adding step: Fill input: '' @ v), AllureStep (''Fill input: '' @ v) None]"
| "announced Check i = [Log Info ''Check element'']"
| "announced (SelectByValue v) i =
     [Log Info (''Select: '' @ v),
      Log Info (''ALLURE: Adding step: Select option: '' @ v),
      AllureStep (''Select option: '' @ v) None]"
| "announced Hover i = [Log Info ''Hover element'']"
| "announced GetElementTextContent i = [Log Info ''Get text content'']"
| "announced a i = []"

fun before_action :: "action \<Rightarrow> call list" where
  "before_action (DragAndDrop dest) = resolve_calls dest"
| "before_action (DownloadFile path) = [ExpectEvent ''download'']"
| "before_action a = []"

fun first_action :: "action \<Rightarrow> string \<Rightarrow> options \<Rightarrow> call" where
  "first_action Click l opts = Act l ''click''"
| "first_action ClickAndNavigate l opts = Act l ''click''"
| "first_action ClickByJS l opts = Act l ''evaluate: element.click()''"
| "first_action (Fill v) l opts = Act l (''fill: '' @ v)"
| "first_action (FillAndEnter v) l opts = Act l (''fill: '' @ v)"
| "first_action (FillAndTab v) l opts = Act l (''fill: '' @ v)"
| "first_action (FillAndType v) l opts = Act l (''fill: '' @ v)"
| "first_action (PressSequentially v) l opts = Act l (''pressSequentially: '' @ v)"
| "first_action Clear l opts = Act l ''clear''"
| "first_action ClearByJS l opts = Act l ''evaluate: clear value, dispatch input''"
| "first_action Check l opts = Act l ''check''"
| "first_action Uncheck l opts = Act l ''uncheck''"
| "first_action (SelectByValue v) l opts = Act l (''selectOption value: '' @ v)"
| "first_action (SelectByValues vs) l opts =
     Act l (''selectOption values: '' @ concat (map (\<lambda>v. v @ '','') vs))"
| "first_action (SelectByText t) l opts = Act l (''selectOption label: '' @ t)"
| "first_action (SelectByIndex n) l opts = Act l (''selectOption index: '' @ show_int n)"
| "first_action AcceptAlert l opts = OnDialog ''accept''"
| "first_action DismissAlert l opts = OnDialog ''dismiss''"
| "first_action GetAlertText l opts = OnDialog ''message, accept''"
| "first_action Hover l opts = Act l ''hover''"
| "first_action Focus l opts = Act l ''focus''"
| "first_action (DragAndDrop dest) l opts = Act l (''dragTo: '' @ locator_of dest)"
| "first_action DoubleClick l opts = Act l ''dblclick''"
| "first_action (DownloadFile path) l opts = Act l ''click''"
| "first_action (UploadFiles paths) l opts =
     Act l (''setInputFiles: '' @ concat (map (\<lambda>p. p @ '','') paths))"
| "first_action ScrollLocatorIntoView l opts = Act l ''scrollIntoViewIfNeeded''"
| "first_action ScrollToElement l opts = Act l ''scrollIntoViewIfNeeded''"
| "first_action GetElementTextContent l opts = Act l ''textContent''"
| "first_action GetElementInnerHTML l opts = Act l ''innerHTML''"
| "first_action GetElementOuterHTML l opts = Act l ''evaluate: el.outerHTML''"
| "first_action GetElementValue l opts = Act l ''inputValue''"
| "first_action (SetElementValue v) l opts = Act l (''fill: '' @ v)"
| "first_action (TriggerEvent t) l opts = Act l (''evaluate: dispatchEvent '' @ t)"

section \<open>Per-test teardown: the afterEach hook of fixtures.ts\<close>

text \<open>
  The hook reads the test's title and status from the runner and the clock once, for
  the screenshot's name. Its driver calls (screenshot, clearing cookies, clearing the
  in-page storage) can throw.
\<close>

datatype test_status = Passed | Failed | TimedOut | Skipped | Interrupted

fun show_test_status :: "test_status \<Rightarrow> string" where
  "show_test_status Passed = ''passed''"
| "show_test_status Failed = ''failed''"
| "show_test_status TimedOut = ''timedOut''"
| "show_test_status Skipped = ''skipped''"
| "show_test_status Interrupted = ''interrupted''"

definition fixtures_afterEach :: "env \<Rightarrow> string \<Rightarrow> test_status \<Rightarrow> int \<Rightarrow> unit io" where
  "fixtures_afterEach en tname testResult now =
     io_then
       (if testResult = Passed then
          io_then (logger_pass (''Test passed: '' @ tname))
                  (allure_addStep (''Test passed: '' @ tname) None)
        else if testResult = Failed then
          io_then (logger_fail (''Test failed: '' @ tname))
         (io_then (allure_addStep (''Test failed: '' @ tname) None)
         (let screenshotName = ''failure_'' @ show_int now in
          io_then (ext en (Screenshot (''reports/screenshots/'' @ screenshotName @ ''.png'') True))
                  (allure_addAttachment (''Screenshot - '' @ screenshotName)
                     (Str (''reports/screenshots/'' @ screenshotName @ ''.png'')) ''image/png'')))
        else
          logger_info (''Test '' @ show_test_status testResult @ '': '' @ tname))
    (io_then (ext en ClearCookies)
             (ext en EvaluateClearStorage))"

fun is_attachment :: "event \<Rightarrow> bool" where
  "is_attachment (AllureAttachment n c ty) = True"
| "is_attachment ev = False"

fun is_error_attachment :: "event \<Rightarrow> bool" where
  "is_error_attachment (AllureAttachment n (JsonText d) ty) = True"
| "is_error_attachment ev = False"

text \<open>
  What the hook logs and reports for the status of the test, before it clears the
  storage, when the failure screenshot does not throw.
\<close>

definition reported :: "string \<Rightarrow> test_status \<Rightarrow> int \<Rightarrow> trace" where
  "reported tname testResult now =
     (if testResult = Passed then
        [Log Info (''[PASS] Test passed: '' @ tname),
         Log Info (''ALLURE: Adding step: Test passed: '' @ tname),
         AllureStep (''Test passed: '' @ tname) None]
      else if testResult = Failed then
        [Log Error (''[FAIL] Test failed: '' @ tname),
         Log Info (''ALLURE: Adding step: Test failed: '' @ tname),
         AllureStep (''Test failed: '' @ tname) None,
         Ext (Screenshot (''reports/screenshots/failure_'' @ show_int now @ ''.png'') True),
         Log Debug (''ALLURE: Adding attachment: Screenshot - failure_'' @ show_int now
                    @ '' (image/png)''),
         AllureAttachment (''Screenshot - failure_'' @ show_int now)
           (Str (''reports/screenshots/failure_'' @ show_int now @ ''.png'')) ''image/png'']
      else
        [Log Info (''Test '' @ show_test_status testResult @ '': '' @ tname)])"

section \<open>TestBase (test-base.ts): failure handling and its afterEach hook\<close>

record TestBase =
  tb_page :: bool
  tb_context :: bool
  tb_browser :: bool

record test_error =
  error_name :: string
  error_message :: string
  error_stack :: "string option"

definition logPass :: "string \<Rightarrow> unit io" where
  "logPass m = io_then (logger_info (''PASS: '' @ m)) (allure_addStep m (Some ''passed''))"

definition logFail :: "string \<Rightarrow> unit io" where
  "logFail m = io_then (logger_error (''FAIL: '' @ m)) (allure_addStep m (Some ''failed''))"

definition dashes :: "string \<Rightarrow> string" where
  "dashes s = map (\<lambda>c. if c = CHR '':'' \<or> c = CHR ''.'' then CHR ''-'' else c) s"

definition takeScreenshot :: "env \<Rightarrow> TestBase \<Rightarrow> string \<Rightarrow> string \<Rightarrow> string option io" where
  "takeScreenshot en tb name isoNow =
     (if \<not> tb_page tb then io_return None
      else
        (let timestamp = dashes isoNow;
             path = ''reports/screenshots/'' @ name @ ''-'' @ timestamp @ ''.png''
         in io_then (ext en (Screenshot path False))
           (io_then (allure_addAttachment name (Str path) ''image/png'')
           (io_then (logPass (''Screenshot taken: '' @ name))
                    (io_return (Some path))))))"

definition allure_addErrorDetails :: "test_error \<Rightarrow> string \<Rightarrow> unit io" where
  "allure_addErrorDetails err isoNow =
     io_then (logger_debug (''ALLURE: Adding error details: '' @ error_message err))
             (allure_addJSONAttachment ''Error Details''
                (JObj [(''name'', JStr (error_name err)),
                       (''message'', JStr (error_message err)),
                       (''stack'', (case error_stack err of None \<Rightarrow> JUndefined | Some s \<Rightarrow> JStr s)),
                       (''timestamp'', JStr isoNow)]))"

definition attachToAllure :: "string \<Rightarrow> content \<Rightarrow> string \<Rightarrow> unit io" where
  "attachToAllure name c mimeType = allure_addAttachment name c mimeType"

definition handleTestFailure :: "env \<Rightarrow> TestBase \<Rightarrow> test_error \<Rightarrow> string \<Rightarrow> string \<Rightarrow> unit io" where
  "handleTestFailure en tb err iso1 iso2 =
     io_then (logFail (''Test failed: '' @ error_message err))
    (io_then (io_when (tb_page tb)
                (io_bind (takeScreenshot en tb ''failure-screenshot'' iso1) (\<lambda>p. io_return ())))
    (io_then (allure_addErrorDetails err iso2)
             (attachToAllure ''Error Stack Trace''
                (Str (case or_undefined (error_stack err) of
                        None \<Rightarrow> error_message err | Some s \<Rightarrow> s))
                ''text/plain'')))"

definition closePage :: "env \<Rightarrow> TestBase \<Rightarrow> TestBase io" where
  "closePage en tb =
     (if \<not> tb_page tb then io_return tb
      else io_then (ext en ClosePage)
          (io_then (logPass ''Page closed'') (io_return (tb\<lparr>tb_page := False\<rparr>))))"

definition closeContext :: "env \<Rightarrow> TestBase \<Rightarrow> TestBase io" where
  "closeContext en tb =
     (if \<not> tb_context tb then io_return tb
      else io_then (ext en CloseContext)
          (io_then (logPass ''Browser context closed'') (io_return (tb\<lparr>tb_context := False\<rparr>))))"

definition closeBrowser :: "env \<Rightarrow> TestBase \<Rightarrow> TestBase io" where
  "closeBrowser en tb =
     (if \<not> tb_browser tb then io_return tb
      else io_then (ext en CloseBrowser)
          (io_then (logPass ''Browser closed'') (io_return (tb\<lparr>tb_browser := False\<rparr>))))"

definition teardownAfterTest :: "env \<Rightarrow> TestBase \<Rightarrow> TestBase io" where
  "teardownAfterTest en tb =
     io_then (logPass ''TestBase teardown started'')
    (io_bind (if tb_page tb then closePage en tb else io_return tb) (\<lambda>tb.
     io_bind (if tb_context tb then closeContext en tb else io_return tb) (\<lambda>tb.
     io_bind (if tb_browser tb then closeBrowser en tb else io_return tb) (\<lambda>tb.
     io_then (logPass ''TestBase teardown completed'') (io_return tb)))))"

text \<open>
  The hook registered by \<^verbatim>\<open>TestBase.afterEach(fn)\<close>: the runner hands it live page,
  context and browser handles, the status and the error of the test; \<open>fn\<close> is the
  caller's own teardown, which may close handles of the TestBase it is given.
\<close>

definition TestBase_afterEach ::
  "env \<Rightarrow> (TestBase \<Rightarrow> TestBase io) \<Rightarrow> string \<Rightarrow> test_status \<Rightarrow> test_error option
     \<Rightarrow> string \<Rightarrow> string \<Rightarrow> TestBase io" where
  "TestBase_afterEach en fn title st err iso1 iso2 =
     (let testBase = \<lparr>tb_page = True, tb_context = True, tb_browser = True\<rparr> in
      io_then
        (case err of
           Some e \<Rightarrow> (if st = Failed then handleTestFailure en testBase e iso1 iso2
                      else logPass (''Test passed: '' @ title))
         | None \<Rightarrow> logPass (''Test passed: '' @ title))
     (io_bind (fn testBase) (\<lambda>testBase.
      teardownAfterTest en testBase)))"

section \<open>Global teardown (global-teardown.ts)\<close>

text \<open>
  \<^verbatim>\<open>process.env.environment\<close> and the clock reading of the cleanup are arguments.
  \<^verbatim>\<open>fs.existsSync\<close> answers without throwing; \<^verbatim>\<open>dotenv.config\<close> reports a
  missing file in its result and returns. Paths are joined with a slash. The bodies of
  the two loops of the cleanup are functions of their own.
\<close>

fun for_each :: "('a \<Rightarrow> unit io) \<Rightarrow> 'a list \<Rightarrow> unit io" where
  "for_each body [] = io_return ()"
| "for_each body (x # xs) = io_then (body x) (for_each body xs)"


definition tempDirectories :: "string list" where
  "tempDirectories = [''test-results'', ''playwright-report'', ''allure-results'']"

definition cleanup_directory :: "env \<Rightarrow> string \<Rightarrow> unit io" where
  "cleanup_directory en dir =
     io_bind (ext_total_bool en (ExistsSync dir)) (\<lambda>present.
     io_when present
       (io_then (ext en (RmSync dir))
                (logger_info (''Cleaned up directory: '' @ dir))))"

definition cleanup_log_file :: "env \<Rightarrow> int \<Rightarrow> string \<Rightarrow> unit io" where
  "cleanup_log_file en sevenDaysAgo file =
     (let filePath = ''logs/'' @ file in
      io_bind (ext_num en (StatSync filePath)) (\<lambda>mtime.
      io_when (mtime < sevenDaysAgo)
        (io_then (ext en (UnlinkSync filePath))
                 (logger_info (''Deleted old log file: '' @ file)))))"

definition cleanup_logs :: "env \<Rightarrow> int \<Rightarrow> unit io" where
  "cleanup_logs en now =
     io_bind (ext_total_bool en (ExistsSync ''logs'')) (\<lambda>present.
     io_when present
       (io_bind (ext_list en (ReaddirSync ''logs'')) (\<lambda>files.
        let sevenDaysAgo = now - (7 * 24 * 60 * 60 * 1000) in
        for_each (cleanup_log_file en sevenDaysAgo) files)))"

definition cleanupTempFiles :: "env \<Rightarrow> int \<Rightarrow> unit io" where
  "cleanupTempFiles en now =
     io_then (logger_info ''Cleaning up temporary files...'')
       (io_catch
          (io_then (for_each (cleanup_directory en) tempDirectories)
          (io_then (cleanup_logs en now)
                   (logger_info ''Temporary files cleanup completed'')))
          (\<lambda>e. logger_warn_meta ''Failed to cleanup temporary files:'' e))"



section \<open>Properties of runs\<close>

text \<open>A computation extends the trace when it only appends to it.\<close>

definition extends :: "'a io \<Rightarrow> bool" where
  "extends m = (\<forall>tr. \<exists>evs. fst (m tr) = tr @ evs)"


section \<open>A quiet environment for concrete runs\<close>

text \<open>No external call throws; every path exists; the logs directory is empty.\<close>

definition quiet :: env where
  "quiet = \<lparr>fails = (\<lambda>tr c. None), answer_bool = (\<lambda>tr c. True),
            answer_num = (\<lambda>tr c. 0), answer_list = (\<lambda>tr c. []),
            answer_str = (\<lambda>tr c. []), answer_text = (\<lambda>tr c. None)\<rparr>"

text \<open>An environment in which the page is gone: taking a screenshot throws.\<close>

definition page_closed :: env where
  "page_closed = \<lparr>fails = (\<lambda>tr c. case c of
                     Screenshot p full \<Rightarrow> Some (JsError ''Error'' ''page.screenshot: Target page has been closed'')
                   | _ \<Rightarrow> None),
                  answer_bool = (\<lambda>tr c. True),
                  answer_num = (\<lambda>tr c. 0), answer_list = (\<lambda>tr c. []),
                  answer_str = (\<lambda>tr c. []), answer_text = (\<lambda>tr c. None)\<rparr>"

text \<open>An environment in which no element ever becomes visible: every wait times out.\<close>

definition never_visible :: env where
  "never_visible = \<lparr>fails = (\<lambda>tr c. case c of
                       WaitForVisible l t \<Rightarrow> Some (JsError ''TimeoutError'' ''locator.waitFor: Timeout exceeded'')
                     | _ \<Rightarrow> None),
                    answer_bool = (\<lambda>tr c. True),
                    answer_num = (\<lambda>tr c. 0), answer_list = (\<lambda>tr c. []),
                    answer_str = (\<lambda>tr c. []), answer_text = (\<lambda>tr c. None)\<rparr>"


text \<open>An environment in which the browser context is gone: clearing the cookies throws.\<close>

definition context_closed :: env where
  "context_closed = \<lparr>fails = (\<lambda>tr c. case c of
                        ClearCookies \<Rightarrow> Some (JsError ''Error'' ''browserContext.clearCookies: Target context has been closed'')
                      | _ \<Rightarrow> None),
                     answer_bool = (\<lambda>tr c. True),
                     answer_num = (\<lambda>tr c. 0), answer_list = (\<lambda>tr c. []),
                     answer_str = (\<lambda>tr c. []), answer_text = (\<lambda>tr c. None)\<rparr>"


section \<open>Running the effect combinators\<close>

lemma io_then_emit [simp]: "io_then (emit ev) k tr = k (tr @ [ev])"
  by (simp add: io_then_def io_bind_def emit_def)

lemma io_bind_return [simp]: "io_bind (io_return x) f tr = f x tr"
  by (simp add: io_bind_def io_return_def)

lemma io_then_return [simp]: "io_then (io_return ()) k tr = k tr"
  by (simp add: io_then_def)

lemma io_then_then [simp]: "io_then (io_then m k) k' = io_then m (io_then k k')"
  by (rule ext) (simp add: io_then_def io_bind_def split: prod.splits sum.splits)

lemma io_then_logger [simp]:
  "io_then (logger_debug m) k tr = k (tr @ [Log Debug m])"
  "io_then (logger_info m) k tr = k (tr @ [Log Info m])"
  "io_then (logger_warn m) k tr = k (tr @ [Log Warn m])"
  "io_then (logger_error m) k tr = k (tr @ [Log Error m])"
  "io_then (logger_pass m) k tr = k (tr @ [Log Info (''[PASS] '' @ m)])"
  "io_then (logger_fail m) k tr = k (tr @ [Log Error (''[FAIL] '' @ m)])"
  by (simp_all add: logger_debug_def logger_info_def logger_warn_def logger_error_def
        logger_pass_def logger_fail_def)

lemma allure_addStep_run [simp]:
  "io_then (allure_addStep n d) k tr =
     k (tr @ [Log Info (''ALLURE: Adding step: '' @ n),
              AllureStep n (if truthy_str d then d else None)])"
  by (simp add: allure_addStep_def)

lemma allure_addAttachment_run [simp]:
  "io_then (allure_addAttachment n c ty) k tr =
     k (tr @ [Log Debug (''ALLURE: Adding attachment: '' @ n @ '' ('' @ ty @ '')''),
              AllureAttachment n c ty])"
  by (simp add: allure_addAttachment_def)

lemma ext_run [simp]:
  "io_then (ext en c) k tr =
     (case fails en tr c of None \<Rightarrow> k (tr @ [Ext c]) | Some e \<Rightarrow> (tr @ [Ext c], Inl e))"
  by (simp add: io_then_def io_bind_def ext_def split: option.splits)

lemma ext_total_bool_run [simp]:
  "io_bind (ext_total_bool en c) k tr = k (answer_bool en tr c) (tr @ [Ext c])"
  by (simp add: io_bind_def ext_total_bool_def)

lemma quiet_simps [simp]:
  "fails quiet tr c = None" "answer_bool quiet tr c = True"
  "answer_num quiet tr c = 0" "answer_list quiet tr c = []"
  by (simp_all add: quiet_def)

lemma ext_last [simp]:
  "ext en c tr = (tr @ [Ext c], case fails en tr c of None \<Rightarrow> Inr () | Some e \<Rightarrow> Inl e)"
  by (simp add: ext_def)

section \<open>TestDataUtils: claim C9\<close>

lemma getTestData_falsy:
  "\<not> truthy (get_prop d key) \<Longrightarrow>
   snd (getTestData d key tr) = Inl (JsError ''Error'' (''Test data not found for key: '' @ key))"
  by (simp add: getTestData_def new_Error_def io_throw_def)

lemma getTestData_truthy:
  "truthy (get_prop d key) \<Longrightarrow> snd (getTestData d key tr) = Inr (get_prop d key)"
  by (simp add: getTestData_def io_return_def Let_def)

lemma hasTestDataKey_result: "snd (hasTestDataKey d key tr) = Inr (has_prop d key)"
  by (simp add: hasTestDataKey_def io_return_def Let_def)

text \<open>
  C9. getTestData throws the Error "Test data not found for key: <key>" exactly when the
  test-data object has no such key or maps it to a falsy value (and throws nothing else);
  for a key that is present with a falsy value hasTestDataKey returns true while
  getTestData throws; for a key with a truthy value getTestData returns that value
  unchanged.
\<close>

theorem C9_getTestData_throws_iff_falsy:
  "((\<exists>e. snd (getTestData d key tr) = Inl e)
      \<longleftrightarrow> (d key = None \<or> (\<exists>v. d key = Some v \<and> \<not> truthy v)))
   \<and> (\<forall>e. snd (getTestData d key tr) = Inl e \<longrightarrow>
          e = JsError ''Error'' (''Test data not found for key: '' @ key))
   \<and> (\<forall>v. d key = Some v \<and> \<not> truthy v \<longrightarrow>
          snd (hasTestDataKey d key tr) = Inr True
        \<and> snd (getTestData d key tr)
            = Inl (JsError ''Error'' (''Test data not found for key: '' @ key)))
   \<and> (\<forall>v. d key = Some v \<and> truthy v \<longrightarrow> snd (getTestData d key tr) = Inr v)"
proof (cases "truthy (get_prop d key)")
  case True
  then obtain v where v: "d key = Some v" "truthy v"
    by (cases "d key") (simp_all add: get_prop_def)
  from True have "snd (getTestData d key tr) = Inr (get_prop d key)"
    by (rule getTestData_truthy)
  with v show ?thesis by (simp add: get_prop_def)
next
  case False
  then have thrown:
    "snd (getTestData d key tr) = Inl (JsError ''Error'' (''Test data not found for key: '' @ key))"
    by (rule getTestData_falsy)
  from False have a: "d key = None \<or> (\<exists>v. d key = Some v \<and> \<not> truthy v)"
    by (cases "d key") (simp_all add: get_prop_def)
  from False have b: "\<And>v. d key = Some v \<Longrightarrow> \<not> truthy v"
    by (simp add: get_prop_def)
  have c: "\<And>v. d key = Some v \<Longrightarrow> snd (hasTestDataKey d key tr) = Inr True"
    by (simp add: hasTestDataKey_result has_prop_def)
  show ?thesis
    using thrown a b c by simp
qed

theorem C9_witness:
  "snd (hasTestDataKey [''retries'' \<mapsto> JNum 0] ''retries'' []) = Inr True
   \<and> snd (getTestData [''retries'' \<mapsto> JNum 0] ''retries'' [])
       = Inl (JsError ''Error'' ''Test data not found for key: retries'')
   \<and> snd (getTestData [''url'' \<mapsto> JStr ''x''] ''url'' []) = Inr (JStr ''x'')"
proof -
  have falsy: "[''retries'' \<mapsto> JNum 0] ''retries'' = Some (JNum 0) \<and> \<not> truthy (JNum 0)"
    by simp
  have truthy: "[''url'' \<mapsto> JStr ''x''] ''url'' = Some (JStr ''x'') \<and> truthy (JStr ''x'')"
    by simp
  from C9_getTestData_throws_iff_falsy [of "[''retries'' \<mapsto> JNum 0]" "''retries''" "[]"] falsy
  have a: "snd (hasTestDataKey [''retries'' \<mapsto> JNum 0] ''retries'' []) = Inr True
        \<and> snd (getTestData [''retries'' \<mapsto> JNum 0] ''retries'' [])
            = Inl (JsError ''Error'' (''Test data not found for key: '' @ ''retries''))"
    by blast
  from C9_getTestData_throws_iff_falsy [of "[''url'' \<mapsto> JStr ''x'']" "''url''" "[]"] truthy
  have b: "snd (getTestData [''url'' \<mapsto> JStr ''x''] ''url'' []) = Inr (JStr ''x'')"
    by blast
  from a b show ?thesis by simp
qed

section \<open>BaseReporter: claim C3\<close>

lemma io_bind_assoc: "io_bind (io_bind m f) g = io_bind m (\<lambda>x. io_bind (f x) g)"
  by (rule ext) (simp add: io_bind_def split: prod.splits sum.splits)

lemma run_calls_append:
  "run_calls r (cs @ ds) = io_bind (run_calls r cs) (\<lambda>r'. run_calls r' ds)"
proof (induction cs arbitrary: r)
  case Nil
  show ?case by (rule ext) simp
next
  case (Cons c cs)
  then show ?case by (simp add: io_bind_assoc)
qed

lemma endTest_closed: "currentTest r = None \<Longrightarrow> endTest r st err now tr = (tr, Inr r)"
  by (simp add: endTest_def io_return_def)

lemma base_addAttachment_keeps: "\<exists>tr'. base_addAttachment r n c ty fp tr = (tr', Inr r)"
  by (simp add: base_addAttachment_def io_when_def io_return_def)

lemma run_call_neutral:
  "\<not> is_start c \<Longrightarrow> \<not> is_end c \<Longrightarrow> \<exists>tr'. run_call r c tr = (tr', Inr r)"
  by (cases c) (simp_all add: base_addAttachment_keeps io_return_def)

lemma run_calls_neutral:
  "\<not> list_ex is_start cs \<Longrightarrow> \<not> list_ex is_end cs \<Longrightarrow> \<exists>tr'. run_calls r cs tr = (tr', Inr r)"
proof (induction cs arbitrary: tr)
  case Nil
  show ?case by (simp add: io_return_def)
next
  case (Cons c cs)
  then obtain tr1 where "run_call r c tr = (tr1, Inr r)"
    using run_call_neutral [of c r tr] by auto
  moreover obtain tr2 where "run_calls r cs tr1 = (tr2, Inr r)"
    using Cons by auto
  ultimately show ?case by (simp add: io_bind_def)
qed

lemma run_call_closed:
  "currentTest r = None \<Longrightarrow> \<not> is_start c \<Longrightarrow> \<exists>tr'. run_call r c tr = (tr', Inr r)"
  by (cases c) (simp_all add: base_addAttachment_keeps io_return_def endTest_closed)

lemma run_calls_closed:
  "currentTest r = None \<Longrightarrow> \<not> list_ex is_start cs \<Longrightarrow> \<exists>tr'. run_calls r cs tr = (tr', Inr r)"
proof (induction cs arbitrary: tr)
  case Nil
  show ?case by (simp add: io_return_def)
next
  case (Cons c cs)
  then obtain tr1 where "run_call r c tr = (tr1, Inr r)"
    using run_call_closed [of r c tr] by auto
  moreover obtain tr2 where "run_calls r cs tr1 = (tr2, Inr r)"
    using Cons by auto
  ultimately show ?case by (simp add: io_bind_def)
qed

lemma startTest_run:
  "startTest r tid tname sname now tr =
     (tr @ [Log Info (''Test started: '' @ tname)],
      Inr (r\<lparr>currentTest := Some (length (store r)),
              store := store r @
                [\<lparr>testId = tid, testName = tname, suite = sname, status = PASSED,
                  startTime = now, endTime = 0, duration = 0, error = None\<rparr>]\<rparr>))"
  by (simp add: startTest_def Let_def io_return_def)

lemma endTest_open:
  "currentTest r = Some a \<Longrightarrow>
   endTest r st err now tr =
     (tr @ [Log Info (''Test ended: '' @ testName (store r ! a) @ '' - Status: '' @ show_status st)],
      Inr (r\<lparr>store := (store r)[a := (store r ! a)\<lparr>endTime := now,
                   duration := now - startTime (store r ! a), status := st,
                   error := or_undefined err\<rparr>],
              currentTest := None\<rparr>))"
  by (simp add: endTest_def Let_def io_return_def)

text \<open>
  C3. After a startTest, calls other than startTest and endTest leave the new Test Record
  open and untouched; the first endTest writes endTime, duration = endTime - startTime,
  the given status and the error (\<^verbatim>\<open>error || undefined\<close>) into it and drops it,
  so that getCurrentTest() is null; whatever follows without a new startTest leaves the
  reporter in that state, and a further endTest changes nothing at all, the log included.
\<close>

theorem C3_record_closed_exactly_once:
  assumes mid: "\<not> list_ex is_start mid" "\<not> list_ex is_end mid"
      and rest: "\<not> list_ex is_start rest"
  shows
    "(\<exists>tr1. run_calls r (StartTest tid tname sname started # mid) tr =
        (tr1, Inr (r\<lparr>currentTest := Some (length (store r)),
                     store := store r @
                       [\<lparr>testId = tid, testName = tname, suite = sname, status = PASSED,
                         startTime = started, endTime = 0, duration = 0, error = None\<rparr>]\<rparr>)))
   \<and> (\<exists>tr2. run_calls r (StartTest tid tname sname started # mid @ [EndTest st err ended]) tr =
        (tr2, Inr (r\<lparr>currentTest := None,
                     store := store r @
                       [\<lparr>testId = tid, testName = tname, suite = sname, status = st,
                         startTime = started, endTime = ended, duration = ended - started,
                         error = or_undefined err\<rparr>]\<rparr>)))
   \<and> (\<exists>tr3. run_calls r (StartTest tid tname sname started # mid @ EndTest st err ended # rest) tr =
        (tr3, Inr (r\<lparr>currentTest := None,
                     store := store r @
                       [\<lparr>testId = tid, testName = tname, suite = sname, status = st,
                         startTime = started, endTime = ended, duration = ended - started,
                         error = or_undefined err\<rparr>]\<rparr>)))
   \<and> (\<forall>st' err' t2 tr'.
        endTest (r\<lparr>currentTest := None,
                    store := store r @
                      [\<lparr>testId = tid, testName = tname, suite = sname, status = st,
                        startTime = started, endTime = ended, duration = ended - started,
                        error = or_undefined err\<rparr>]\<rparr>) st' err' t2 tr' =
        (tr', Inr (r\<lparr>currentTest := None,
                     store := store r @
                       [\<lparr>testId = tid, testName = tname, suite = sname, status = st,
                         startTime = started, endTime = ended, duration = ended - started,
                         error = or_undefined err\<rparr>]\<rparr>)))
   \<and> getCurrentTest (r\<lparr>currentTest := None,
                     store := store r @
                       [\<lparr>testId = tid, testName = tname, suite = sname, status = st,
                         startTime = started, endTime = ended, duration = ended - started,
                         error = or_undefined err\<rparr>]\<rparr>) = None"
proof -
  define opened where "opened =
    \<lparr>testId = tid, testName = tname, suite = sname, status = PASSED,
     startTime = started, endTime = 0, duration = 0, error = None\<rparr>"
  define closed where "closed =
    \<lparr>testId = tid, testName = tname, suite = sname, status = st,
     startTime = started, endTime = ended, duration = ended - started, error = or_undefined err\<rparr>"
  define ropen where "ropen = r\<lparr>currentTest := Some (length (store r)), store := store r @ [opened]\<rparr>"
  define rclosed where "rclosed = r\<lparr>currentTest := None, store := store r @ [closed]\<rparr>"
  have start: "startTest r tid tname sname started tr = (tr @ [Log Info (''Test started: '' @ tname)], Inr ropen)"
    by (simp add: startTest_run ropen_def opened_def)
  obtain trm where trm: "run_calls ropen mid (tr @ [Log Info (''Test started: '' @ tname)]) = (trm, Inr ropen)"
    using run_calls_neutral [OF mid] by blast
  have open1: "run_calls r (StartTest tid tname sname started # mid) tr = (trm, Inr ropen)"
    using start trm by (simp add: io_bind_def)
  have cur: "currentTest ropen = Some (length (store r))"
    by (simp add: ropen_def)
  have "endTest ropen st err ended trm =
          (trm @ [Log Info (''Test ended: '' @ tname @ '' - Status: '' @ show_status st)], Inr rclosed)"
    by (simp add: endTest_open [OF cur]) (simp add: ropen_def rclosed_def opened_def closed_def)
  then obtain tre where tre: "endTest ropen st err ended trm = (tre, Inr rclosed)"
    by blast
  have closed2: "run_calls r (StartTest tid tname sname started # mid @ [EndTest st err ended]) tr = (tre, Inr rclosed)"
    using start trm tre
    by (simp add: io_bind_def run_calls_append io_return_def)
  have none: "currentTest rclosed = None"
    by (simp add: rclosed_def)
  obtain trr where trr: "run_calls rclosed rest tre = (trr, Inr rclosed)"
    using run_calls_closed [OF none rest] by blast
  have closed3: "run_calls r (StartTest tid tname sname started # mid @ EndTest st err ended # rest) tr = (trr, Inr rclosed)"
    using start trm tre trr
    by (simp add: io_bind_def run_calls_append)
  have again: "\<And>st' err' t2 tr'. endTest rclosed st' err' t2 tr' = (tr', Inr rclosed)"
    using none by (rule endTest_closed)
  have cur2: "getCurrentTest rclosed = None"
    using none by (simp add: getCurrentTest_def)
  from open1 closed2 closed3 again cur2 show ?thesis
    unfolding ropen_def rclosed_def opened_def closed_def by blast
qed

theorem C3_witness:
  "\<not> list_ex is_start [AddAttachment ''log'' (Str ''x'') ''text/plain'' None, GetCurrentTest]
   \<and> \<not> list_ex is_end [AddAttachment ''log'' (Str ''x'') ''text/plain'' None, GetCurrentTest]
   \<and> \<not> list_ex is_start [EndTest PASSED None 300, GetCurrentTest]
   \<and> snd (run_calls \<lparr>currentTest = None, store = []\<rparr>
          (StartTest ''T1'' ''login'' ''smoke'' 100
             # [AddAttachment ''log'' (Str ''x'') ''text/plain'' None, GetCurrentTest]
             @ EndTest FAILED (Some ''boom'') 250 # [EndTest PASSED None 300, GetCurrentTest]) []) =
          Inr \<lparr>currentTest = None,
                store = [\<lparr>testId = ''T1'', testName = ''login'', suite = ''smoke'',
                          status = FAILED, startTime = 100, endTime = 250, duration = 150,
                          error = Some ''boom''\<rparr>]\<rparr>"
proof -
  have h1: "\<not> list_ex is_start [AddAttachment ''log'' (Str ''x'') ''text/plain'' None, GetCurrentTest]"
    by simp
  have h2: "\<not> list_ex is_end [AddAttachment ''log'' (Str ''x'') ''text/plain'' None, GetCurrentTest]"
    by simp
  have h3: "\<not> list_ex is_start [EndTest PASSED None 300, GetCurrentTest]"
    by simp
  note t = C3_record_closed_exactly_once [OF h1 h2 h3,
      where r = "\<lparr>currentTest = None, store = []\<rparr>" and tid = "''T1''" and tname = "''login''"
        and sname = "''smoke''" and started = 100 and st = FAILED and err = "Some ''boom''"
        and ended = 250 and tr = "[]"]
  from t obtain tr3 where "run_calls \<lparr>currentTest = None, store = []\<rparr>
          (StartTest ''T1'' ''login'' ''smoke'' 100
             # [AddAttachment ''log'' (Str ''x'') ''text/plain'' None, GetCurrentTest]
             @ EndTest FAILED (Some ''boom'') 250 # [EndTest PASSED None 300, GetCurrentTest]) [] =
          (tr3, Inr \<lparr>currentTest = None,
                     store = [\<lparr>testId = ''T1'', testName = ''login'', suite = ''smoke'',
                               status = FAILED, startTime = 100, endTime = 250, duration = 150,
                               error = Some ''boom''\<rparr>]\<rparr>)"
    by (auto simp add: or_undefined_def truthy_str_def)
  then have "snd (run_calls \<lparr>currentTest = None, store = []\<rparr>
          (StartTest ''T1'' ''login'' ''smoke'' 100
             # [AddAttachment ''log'' (Str ''x'') ''text/plain'' None, GetCurrentTest]
             @ EndTest FAILED (Some ''boom'') 250 # [EndTest PASSED None 300, GetCurrentTest]) []) =
          Inr \<lparr>currentTest = None,
                store = [\<lparr>testId = ''T1'', testName = ''login'', suite = ''smoke'',
                          status = FAILED, startTime = 100, endTime = 250, duration = 150,
                          error = Some ''boom''\<rparr>]\<rparr>"
    by simp
  with h1 h2 h3 show ?thesis by blast
qed

section \<open>Reporting Adapter without an open Test Record: claim C4\<close>

text \<open>
  C4 as stated fails: with no Test Record open, endTest returns without logging anything
  and addStep logs an info line and forwards the step to the backend; neither emits a
  warning.
\<close>

theorem C4_counterexample:
  "run_adapter_call \<lparr>currentTest = None, store = []\<rparr> (AEndTest FAILED (Some ''late'') 7) []
     = ([], Inr \<lparr>currentTest = None, store = []\<rparr>)
   \<and> run_adapter_call \<lparr>currentTest = None, store = []\<rparr> (AAddStep ''open page'' None) []
     = ([Log Info ''ALLURE: Adding step: open page'', AllureStep ''open page'' None],
        Inr \<lparr>currentTest = None, store = []\<rparr>)
   \<and> \<not> list_ex is_warning
         (fst (run_adapter_call \<lparr>currentTest = None, store = []\<rparr> (AEndTest FAILED (Some ''late'') 7) []))
   \<and> \<not> list_ex is_warning
         (fst (run_adapter_call \<lparr>currentTest = None, store = []\<rparr> (AAddStep ''open page'' None) []))"
  by (simp add: endTest_closed io_return_def truthy_str_def)

text \<open>
  C4, amended. With no Test Record open, none of endTest, addStep and addAttachment creates
  or modifies a Test Record, and the current-test pointer stays null. endTest returns at
  once and logs nothing. addStep and addAttachment never look at the current record: they
  log one line (info and debug level, never a warning) and hand the step or attachment to
  the report backend, exactly as they do for a reporter \<open>other\<close> that has a record open.
\<close>

theorem C4_no_open_record:
  assumes "currentTest r = None"
  shows "run_adapter_call r (AEndTest st err now) tr = (tr, Inr r)
     \<and> run_adapter_call r (AAddStep n d) tr =
           (tr @ [Log Info (''ALLURE: Adding step: '' @ n), AllureStep n (or_undefined d)], Inr r)
     \<and> run_adapter_call r (AAddAttachment n c ty) tr =
           (tr @ [Log Debug (''ALLURE: Adding attachment: '' @ n @ '' ('' @ ty @ '')''),
                  AllureAttachment n c ty], Inr r)
     \<and> fst (run_adapter_call r (AAddStep n d) tr) = fst (run_adapter_call other (AAddStep n d) tr)
     \<and> fst (run_adapter_call r (AAddAttachment n c ty) tr)
           = fst (run_adapter_call other (AAddAttachment n c ty) tr)
     \<and> \<not> list_ex is_warning (drop (length tr) (fst (run_adapter_call r call tr)))
     \<and> snd (run_adapter_call r call tr) = Inr r"
proof -
  have a: "run_adapter_call r (AEndTest st err now) tr = (tr, Inr r)" for st err now
    using assms by (simp add: endTest_closed)
  have b: "run_adapter_call x (AAddStep n d) tr =
           (tr @ [Log Info (''ALLURE: Adding step: '' @ n), AllureStep n (or_undefined d)], Inr x)" for n d x
    by (simp add: io_return_def or_undefined_def)
  have c: "run_adapter_call x (AAddAttachment n c ty) tr =
           (tr @ [Log Debug (''ALLURE: Adding attachment: '' @ n @ '' ('' @ ty @ '')''),
                  AllureAttachment n c ty], Inr x)" for n c ty x
    by (simp add: io_return_def)
  have d: "\<not> list_ex is_warning (drop (length tr) (fst (run_adapter_call r call tr)))
           \<and> snd (run_adapter_call r call tr) = Inr r"
  proof (cases call)
    case (AEndTest st err now)
    then show ?thesis using a [of st err now] by simp
  next
    case (AAddStep n d)
    then show ?thesis using b [of r n d] by simp
  next
    case (AAddAttachment n c ty)
    then show ?thesis using c [of r n c ty] by simp
  qed
  show ?thesis
    using a [of st err now] b [of r n d] b [of other n d] c [of r n c ty] c [of other n c ty] d
    by simp
qed

theorem C4_witness:
  "currentTest \<lparr>currentTest = None, store = []\<rparr> = None
   \<and> run_adapter_call \<lparr>currentTest = None, store = []\<rparr> (AEndTest PASSED None 5) [Log Info ''x'']
       = ([Log Info ''x''], Inr \<lparr>currentTest = None, store = []\<rparr>)
   \<and> run_adapter_call \<lparr>currentTest = None, store = []\<rparr> (AAddStep ''s'' (Some ''d'')) [Log Info ''x'']
       = ([Log Info ''x'', Log Info ''ALLURE: Adding step: s'', AllureStep ''s'' (Some ''d'')],
          Inr \<lparr>currentTest = None, store = []\<rparr>)"
proof -
  have h: "currentTest \<lparr>currentTest = None, store = []\<rparr> = None"
    by simp
  note t = C4_no_open_record [OF h, where st = PASSED and err = None and now = 5
      and tr = "[Log Info ''x'']" and n = "''s''" and d = "Some ''d''"]
  from t have "run_adapter_call \<lparr>currentTest = None, store = []\<rparr> (AEndTest PASSED None 5) [Log Info ''x'']
       = ([Log Info ''x''], Inr \<lparr>currentTest = None, store = []\<rparr>)"
    by blast
  moreover from t have "run_adapter_call \<lparr>currentTest = None, store = []\<rparr> (AAddStep ''s'' (Some ''d'')) [Log Info ''x'']
       = ([Log Info ''x'', Log Info ''ALLURE: Adding step: s'', AllureStep ''s'' (Some ''d'')],
          Inr \<lparr>currentTest = None, store = []\<rparr>)"
    by (simp add: or_undefined_def truthy_str_def)
  ultimately show ?thesis using h by blast
qed

section \<open>Logger.getInstance: claim C6\<close>

lemma getInstance_stored:
  "Logger_instance st = Some l \<Longrightarrow> getInstance en st tr = (tr, Inr (st, l))"
  by (simp add: getInstance_def io_return_def)

lemma new_Logger_result:
  "new_Logger en st tr = (tr', Inr (st', l)) \<Longrightarrow>
     st' = st\<lparr>next_object := Suc (next_object st)\<rparr> \<and> l = next_object st"
  by (auto simp: new_Logger_def io_then_def io_bind_def io_return_def
           split: prod.splits sum.splits)

lemma getInstance_fresh:
  "Logger_instance st = None \<Longrightarrow>
   getInstance en st tr =
     (case new_Logger en st tr of
        (tr', Inl e) \<Rightarrow> (tr', Inl e)
      | (tr', Inr (st', l)) \<Rightarrow> (tr', Inr (st'\<lparr>Logger_instance := Some l\<rparr>, l)))"
  by (simp add: getInstance_def io_bind_def io_return_def split: prod.splits sum.splits)

lemma getInstance_sets:
  "getInstance en st tr = (tr', Inr (st', l)) \<Longrightarrow> Logger_instance st' = Some l"
proof (cases "Logger_instance st")
  case None
  assume "getInstance en st tr = (tr', Inr (st', l))"
  with None show ?thesis
    by (auto simp: getInstance_fresh split: prod.splits sum.splits)
next
  case (Some k)
  assume "getInstance en st tr = (tr', Inr (st', l))"
  with Some show ?thesis
    by (simp add: getInstance_stored)
qed

lemma run_logger_ops_keeps:
  "Logger_instance st = Some l \<Longrightarrow>
   returns_only l (fst (run_logger_ops en ops st tr))
   \<and> Logger_instance (snd (run_logger_ops en ops st tr)) = Some l"
proof (induction ops arbitrary: st tr)
  case Nil
  then show ?case by simp
next
  case (Cons opr ops)
  show ?case
  proof (cases opr)
    case GetInstance
    with Cons.prems Cons.IH [OF Cons.prems, of tr] show ?thesis
      by (auto simp add: getInstance_stored split: prod.splits)
  next
    case NewLogger
    show ?thesis
    proof (cases "new_Logger en st tr")
      case (Pair tr' res)
      show ?thesis
      proof (cases res)
        case (Inl e)
        with Pair NewLogger Cons.IH [OF Cons.prems, of tr'] show ?thesis
          by (auto split: prod.splits)
      next
        case (Inr p)
        obtain st' k where p: "p = (st', k)" by (cases p)
        with Pair Inr have "st' = st\<lparr>next_object := Suc (next_object st)\<rparr>"
          using new_Logger_result [of en st tr tr' st' k] by simp
        with Cons.prems have "Logger_instance st' = Some l" by simp
        from Cons.IH [OF this, of tr'] Pair Inr p NewLogger show ?thesis
          by (auto split: prod.splits)
      qed
    qed
  qed
qed

text \<open>
  C6. When the static field holds an instance, getInstance returns it and changes nothing
  (no construction, no effect). When the field is empty, getInstance constructs a Logger
  and stores it, unless the constructor throws. After any call that returned an instance,
  every later getInstance, interleaved with any direct constructor calls and under any
  environment, returns that same instance, and the field still holds it.
\<close>

theorem C6_getInstance_idempotent:
  "(Logger_instance st = Some l \<longrightarrow> getInstance en st tr = (tr, Inr (st, l)))
   \<and> (Logger_instance st = None \<longrightarrow>
        getInstance en st tr =
          (case new_Logger en st tr of
             (tr', Inl e) \<Rightarrow> (tr', Inl e)
           | (tr', Inr (st', k)) \<Rightarrow> (tr', Inr (st'\<lparr>Logger_instance := Some k\<rparr>, k))))
   \<and> (getInstance en st tr = (trb, Inr (stb, l)) \<longrightarrow>
        Logger_instance stb = Some l
        \<and> getInstance eno stb tro = (tro, Inr (stb, l))
        \<and> returns_only l (fst (run_logger_ops eno ops stb tro))
        \<and> Logger_instance (snd (run_logger_ops eno ops stb tro)) = Some l)"
  using getInstance_stored [of st l en tr] getInstance_fresh [of st en tr]
        getInstance_sets [of en st tr trb stb l]
        getInstance_stored [of stb l eno tro]
        run_logger_ops_keeps [of stb l eno ops tro]
  by blast

theorem C6_witness:
  "getInstance quiet \<lparr>Logger_instance = None, next_object = 0\<rparr> []
     = ([Ext (ExistsSync ''logs''), Ext CreateWinston],
        Inr (\<lparr>Logger_instance = Some 0, next_object = 1\<rparr>, 0))
   \<and> getInstance quiet \<lparr>Logger_instance = Some 0, next_object = 1\<rparr>
         [Ext (ExistsSync ''logs''), Ext CreateWinston]
     = ([Ext (ExistsSync ''logs''), Ext CreateWinston],
        Inr (\<lparr>Logger_instance = Some 0, next_object = 1\<rparr>, 0))
   \<and> returns_only 0 (fst (run_logger_ops quiet [GetInstance, NewLogger, GetInstance]
         \<lparr>Logger_instance = Some 0, next_object = 1\<rparr> []))"
proof -
  have first: "getInstance quiet \<lparr>Logger_instance = None, next_object = 0\<rparr> []
     = ([Ext (ExistsSync ''logs''), Ext CreateWinston],
        Inr (\<lparr>Logger_instance = Some 0, next_object = 1\<rparr>, 0))"
    by (simp add: getInstance_def new_Logger_def createLogger_def ensureLogsDirectory_def
          io_when_def io_return_def io_bind_def ext_def ext_total_bool_def io_then_def)
  note t = C6_getInstance_idempotent [where en = quiet
      and st = "\<lparr>Logger_instance = None, next_object = 0\<rparr>" and tr = "[]"
      and trb = "[Ext (ExistsSync ''logs''), Ext CreateWinston]"
      and stb = "\<lparr>Logger_instance = Some 0, next_object = 1\<rparr>" and l = 0]
  from t first
  have "getInstance quiet \<lparr>Logger_instance = Some 0, next_object = 1\<rparr>
          [Ext (ExistsSync ''logs''), Ext CreateWinston]
        = ([Ext (ExistsSync ''logs''), Ext CreateWinston],
           Inr (\<lparr>Logger_instance = Some 0, next_object = 1\<rparr>, 0))"
    by blast
  moreover from t first
  have "returns_only 0 (fst (run_logger_ops quiet [GetInstance, NewLogger, GetInstance]
         \<lparr>Logger_instance = Some 0, next_object = 1\<rparr> []))"
    by blast
  ultimately show ?thesis using first by blast
qed

section \<open>CommonUtils random numbers: claim C8\<close>

declare show_nat.simps [simp del] sum_loop.simps [simp del] concat_loop.simps [simp del]











lemma round_half_even_tie:
  "round_half_even (of_int n + 1 / 2) = (if even n then n else n + 1)"
proof -
  have f: "\<lfloor>(of_int n + 1 / 2 :: rat)\<rfloor> = n"
    by (rule floor_unique) simp_all
  show ?thesis
    unfolding round_half_even_def f Let_def by simp
qed

text \<open>The double nearest to 0.7 times 10 rounds up to 7; the exact product is below 7.\<close>

lemma double_mult_seven_tenths:
  "\<lfloor>double_mult (6305039478318694 / 2 ^ 53) 10\<rfloor> = 7"
  "\<lfloor>(6305039478318694 / 2 ^ 53 :: rat) * 10\<rfloor> = 6"
proof -
  define x :: rat where "x = 6305039478318694 / 2 ^ 53 * 10"
  have x: "x < 16" "x < 8" "4 \<le> x" by (simp_all add: x_def)
  have "quantum x = quantum_search 1024 4 (1 / 2 ^ 50) x"
    using x(2) by (simp add: quantum_def eval_nat_numeral)
  also have "\<dots> = 1 / 2 ^ 50"
    using x(3) by (simp add: eval_nat_numeral)
  finally have q: "quantum x = 1 / 2 ^ 50" .
  have y: "x / quantum x = of_int 7881299347898367 + 1 / 2"
    by (simp add: q) (simp add: x_def)
  have r: "round_half_even (x / quantum x) = 7881299347898368"
    unfolding y round_half_even_tie by simp
  have "double_mult (6305039478318694 / 2 ^ 53) 10
          = of_int (round_half_even (x / quantum x)) * quantum x"
    by (simp only: double_mult_def x_def)
  also have "\<dots> = 7"
    by (simp only: r) (simp add: q)
  finally have "double_mult (6305039478318694 / 2 ^ 53) 10 = 7" .
  then show "\<lfloor>double_mult (6305039478318694 / 2 ^ 53) 10\<rfloor> = 7" by simp
  show "\<lfloor>(6305039478318694 / 2 ^ 53 :: rat) * 10\<rfloor> = 6"
    by (simp add: floor_eq_iff)
qed
















section \<open>Per-test teardown of fixtures.ts: claims C1 and C2\<close>

lemma show_int_1000: "show_int 1000 = ''1000''"
  by (simp add: show_int_def show_nat.simps digit_char_def)

lemma fixtures_afterEach_never_attaches_error:
  "\<not> list_ex is_error_attachment (drop (length tr) (fst (fixtures_afterEach en n st now tr)))"
  by (cases st) (simp_all add: fixtures_afterEach_def Let_def split: option.splits)

text \<open>
  C1 fails on the hook of fixtures.ts. A failed test whose teardown runs without any
  driver error gets the screenshot attachment (the path of the file, sent as image/png)
  and nothing else: the hook never reads the thrown error and never attaches it.
\<close>

theorem C1_failed_test_without_error_attachment:
  "fixtures_afterEach quiet ''login'' Failed 1000 [] =
     ([Log Error ''[FAIL] Test failed: login'',
       Log Info ''ALLURE: Adding step: Test failed: login'',
       AllureStep ''Test failed: login'' None,
       Ext (Screenshot ''reports/screenshots/failure_1000.png'' True),
       Log Debug ''ALLURE: Adding attachment: Screenshot - failure_1000 (image/png)'',
       AllureAttachment ''Screenshot - failure_1000''
         (Str ''reports/screenshots/failure_1000.png'') ''image/png'',
       Ext ClearCookies,
       Ext EvaluateClearStorage],
      Inr ())
   \<and> filter is_attachment (fst (fixtures_afterEach quiet ''login'' Failed 1000 [])) =
       [AllureAttachment ''Screenshot - failure_1000''
          (Str ''reports/screenshots/failure_1000.png'') ''image/png'']
   \<and> \<not> list_ex is_error_attachment (fst (fixtures_afterEach quiet ''login'' Failed 1000 []))"
  by (simp add: fixtures_afterEach_def Let_def show_int_1000 truthy_str_def)

text \<open>
  The sibling hook does attach the error: \<^verbatim>\<open>TestBase.handleTestFailure\<close> takes the
  screenshot and then adds the error as a JSON attachment and its stack as text.
\<close>

lemma TestBase_handleTestFailure_attaches_error:
  "handleTestFailure quiet \<lparr>tb_page = True, tb_context = True, tb_browser = True\<rparr>
     \<lparr>error_name = ''Error'', error_message = ''boom'', error_stack = Some ''at x''\<rparr>
     ''2026-01-01T00:00:00.000Z'' ''2026-01-01T00:00:01.000Z'' [] =
   ([Log Error ''FAIL: Test failed: boom'',
     Log Info ''ALLURE: Adding step: Test failed: boom'',
     AllureStep ''Test failed: boom'' (Some ''failed''),
     Ext (Screenshot ''reports/screenshots/failure-screenshot-2026-01-01T00-00-00-000Z.png'' False),
     Log Debug ''ALLURE: Adding attachment: failure-screenshot (image/png)'',
     AllureAttachment ''failure-screenshot''
       (Str ''reports/screenshots/failure-screenshot-2026-01-01T00-00-00-000Z.png'') ''image/png'',
     Log Info ''PASS: Screenshot taken: failure-screenshot'',
     Log Info ''ALLURE: Adding step: Screenshot taken: failure-screenshot'',
     AllureStep ''Screenshot taken: failure-screenshot'' (Some ''passed''),
     Log Debug ''ALLURE: Adding error details: boom'',
     Log Debug ''ALLURE: Adding JSON attachment: Error Details'',
     AllureAttachment ''Error Details''
       (JsonText (JObj [(''name'', JStr ''Error''), (''message'', JStr ''boom''),
                        (''stack'', JStr ''at x''), (''timestamp'', JStr ''2026-01-01T00:00:01.000Z'')]))
       ''application/json'',
     Log Debug ''ALLURE: Adding attachment: Error Stack Trace (text/plain)'',
     AllureAttachment ''Error Stack Trace'' (Str ''at x'') ''text/plain''],
    Inr ())"
  by (simp add: handleTestFailure_def logFail_def logPass_def takeScreenshot_def io_when_def
        allure_addErrorDetails_def allure_addJSONAttachment_def attachToAllure_def dashes_def
        or_undefined_def truthy_str_def Let_def io_bind_def io_return_def io_then_def emit_def
        logger_error_def logger_info_def logger_debug_def allure_addStep_def
        allure_addAttachment_def ext_def)

text \<open>
  C2 as stated fails: when the failure screenshot throws, the hook of fixtures.ts ends
  with that error; nothing is logged about it and the storage is not cleared.
\<close>

theorem C2_counterexample:
  "fixtures_afterEach page_closed ''login'' Failed 1000 [] =
     ([Log Error ''[FAIL] Test failed: login'',
       Log Info ''ALLURE: Adding step: Test failed: login'',
       AllureStep ''Test failed: login'' None,
       Ext (Screenshot ''reports/screenshots/failure_1000.png'' True)],
      Inl (JsError ''Error'' ''page.screenshot: Target page has been closed''))"
  by (simp add: fixtures_afterEach_def Let_def show_int_1000 truthy_str_def page_closed_def)

text \<open>
  C2, amended. The afterEach hook of fixtures.ts has no try/catch. When one of its driver
  calls (screenshot, clearing cookies, clearing the in-page storage) throws, the hook
  throws that same error: the failing call is the last thing it did, so nothing is
  logged and the remaining steps are skipped. When it returns normally it has cleared
  cookies and storage last. It returns normally whenever no driver call throws. Step by
  step: a failing screenshot ends the hook of a failed test with the screenshot's error;
  otherwise the hook reports the status and clears the cookies, and ends with the error
  of that call when it throws; otherwise it clears the in-page storage, and ends with
  the error of that call when it throws, and normally when it does not.
\<close>

theorem C2_teardown_errors_propagate:
  "(snd (fixtures_afterEach en n st now tr) = Inl e \<longrightarrow>
      (case last (fst (fixtures_afterEach en n st now tr)) of
         Ext c \<Rightarrow> fails en (butlast (fst (fixtures_afterEach en n st now tr))) c = Some e
       | _ \<Rightarrow> False))
   \<and> (snd (fixtures_afterEach en n st now tr) = Inr () \<longrightarrow>
        last (fst (fixtures_afterEach en n st now tr)) = Ext EvaluateClearStorage
        \<and> last (butlast (fst (fixtures_afterEach en n st now tr))) = Ext ClearCookies)
   \<and> ((\<forall>h c. fails en h c = None) \<longrightarrow> snd (fixtures_afterEach en n st now tr) = Inr ())
   \<and> (fails en (tr @ [Log Error (''[FAIL] Test failed: '' @ n),
                       Log Info (''ALLURE: Adding step: Test failed: '' @ n),
                       AllureStep (''Test failed: '' @ n) None])
         (Screenshot (''reports/screenshots/failure_'' @ show_int now @ ''.png'') True) = Some e \<longrightarrow>
       fixtures_afterEach en n Failed now tr =
         (tr @ [Log Error (''[FAIL] Test failed: '' @ n),
                Log Info (''ALLURE: Adding step: Test failed: '' @ n),
                AllureStep (''Test failed: '' @ n) None,
                Ext (Screenshot (''reports/screenshots/failure_'' @ show_int now @ ''.png'') True)],
          Inl e))
   \<and> ((st = Failed \<longrightarrow>
         fails en (tr @ [Log Error (''[FAIL] Test failed: '' @ n),
                         Log Info (''ALLURE: Adding step: Test failed: '' @ n),
                         AllureStep (''Test failed: '' @ n) None])
           (Screenshot (''reports/screenshots/failure_'' @ show_int now @ ''.png'') True) = None) \<longrightarrow>
       fixtures_afterEach en n st now tr =
         (case fails en (tr @ reported n st now) ClearCookies of
            Some e1 \<Rightarrow> (tr @ reported n st now @ [Ext ClearCookies], Inl e1)
          | None \<Rightarrow>
              (tr @ reported n st now @ [Ext ClearCookies, Ext EvaluateClearStorage],
               case fails en (tr @ reported n st now @ [Ext ClearCookies]) EvaluateClearStorage of
                 Some e2 \<Rightarrow> Inl e2
               | None \<Rightarrow> Inr ())))"
proof (intro conjI)
  show "snd (fixtures_afterEach en n st now tr) = Inl e \<longrightarrow>
      (case last (fst (fixtures_afterEach en n st now tr)) of
         Ext c \<Rightarrow> fails en (butlast (fst (fixtures_afterEach en n st now tr))) c = Some e
       | _ \<Rightarrow> False)"
    by (cases st) (auto simp add: fixtures_afterEach_def Let_def truthy_str_def butlast_append
          split: option.splits)
  show "snd (fixtures_afterEach en n st now tr) = Inr () \<longrightarrow>
        last (fst (fixtures_afterEach en n st now tr)) = Ext EvaluateClearStorage
        \<and> last (butlast (fst (fixtures_afterEach en n st now tr))) = Ext ClearCookies"
    by (cases st) (auto simp add: fixtures_afterEach_def Let_def truthy_str_def butlast_append
          split: option.splits)
  show "(\<forall>h c. fails en h c = None) \<longrightarrow> snd (fixtures_afterEach en n st now tr) = Inr ()"
    by (cases st) (auto simp add: fixtures_afterEach_def Let_def truthy_str_def
          split: option.splits)
  show "fails en (tr @ [Log Error (''[FAIL] Test failed: '' @ n),
                       Log Info (''ALLURE: Adding step: Test failed: '' @ n),
                       AllureStep (''Test failed: '' @ n) None])
         (Screenshot (''reports/screenshots/failure_'' @ show_int now @ ''.png'') True) = Some e \<longrightarrow>
       fixtures_afterEach en n Failed now tr =
         (tr @ [Log Error (''[FAIL] Test failed: '' @ n),
                Log Info (''ALLURE: Adding step: Test failed: '' @ n),
                AllureStep (''Test failed: '' @ n) None,
                Ext (Screenshot (''reports/screenshots/failure_'' @ show_int now @ ''.png'') True)],
          Inl e)"
    by (simp add: fixtures_afterEach_def Let_def truthy_str_def)
  show "(st = Failed \<longrightarrow>
         fails en (tr @ [Log Error (''[FAIL] Test failed: '' @ n),
                         Log Info (''ALLURE: Adding step: Test failed: '' @ n),
                         AllureStep (''Test failed: '' @ n) None])
           (Screenshot (''reports/screenshots/failure_'' @ show_int now @ ''.png'') True) = None) \<longrightarrow>
       fixtures_afterEach en n st now tr =
         (case fails en (tr @ reported n st now) ClearCookies of
            Some e1 \<Rightarrow> (tr @ reported n st now @ [Ext ClearCookies], Inl e1)
          | None \<Rightarrow>
              (tr @ reported n st now @ [Ext ClearCookies, Ext EvaluateClearStorage],
               case fails en (tr @ reported n st now @ [Ext ClearCookies]) EvaluateClearStorage of
                 Some e2 \<Rightarrow> Inl e2
               | None \<Rightarrow> Inr ()))"
    by (cases st) (simp_all add: fixtures_afterEach_def reported_def Let_def truthy_str_def
          split: option.splits)
qed

theorem C2_witness:
  "fails page_closed
     [Log Error (''[FAIL] Test failed: '' @ ''login''),
      Log Info (''ALLURE: Adding step: Test failed: '' @ ''login''),
      AllureStep (''Test failed: '' @ ''login'') None]
     (Screenshot (''reports/screenshots/failure_'' @ show_int 1000 @ ''.png'') True)
     = Some (JsError ''Error'' ''page.screenshot: Target page has been closed'')
   \<and> snd (fixtures_afterEach page_closed ''login'' Failed 1000 [])
       = Inl (JsError ''Error'' ''page.screenshot: Target page has been closed'')
   \<and> snd (fixtures_afterEach quiet ''login'' Passed 1000 []) = Inr ()
   \<and> fails context_closed ([] @ reported ''login'' Passed 1000) ClearCookies
       = Some (JsError ''Error'' ''browserContext.clearCookies: Target context has been closed'')
   \<and> fixtures_afterEach context_closed ''login'' Passed 1000 [] =
       ([Log Info ''[PASS] Test passed: login'',
         Log Info ''ALLURE: Adding step: Test passed: login'',
         AllureStep ''Test passed: login'' None,
         Ext ClearCookies],
        Inl (JsError ''Error'' ''browserContext.clearCookies: Target context has been closed''))"
proof -
  have h: "fails page_closed
     ([] @ [Log Error (''[FAIL] Test failed: '' @ ''login''),
      Log Info (''ALLURE: Adding step: Test failed: '' @ ''login''),
      AllureStep (''Test failed: '' @ ''login'') None])
     (Screenshot (''reports/screenshots/failure_'' @ show_int 1000 @ ''.png'') True)
     = Some (JsError ''Error'' ''page.screenshot: Target page has been closed'')"
    by (simp add: page_closed_def)
  have q: "\<forall>h c. fails quiet h c = None"
    by simp
  have c: "fails context_closed ([] @ reported ''login'' Passed 1000) ClearCookies
       = Some (JsError ''Error'' ''browserContext.clearCookies: Target context has been closed'')"
    by (simp add: context_closed_def)
  have p: "Passed = Failed \<longrightarrow>
         fails context_closed ([] @ [Log Error (''[FAIL] Test failed: '' @ ''login''),
                         Log Info (''ALLURE: Adding step: Test failed: '' @ ''login''),
                         AllureStep (''Test failed: '' @ ''login'') None])
           (Screenshot (''reports/screenshots/failure_'' @ show_int 1000 @ ''.png'') True) = None"
    by simp
  note t = C2_teardown_errors_propagate [where en = page_closed and n = "''login''" and now = 1000
      and tr = "[]" and e = "JsError ''Error'' ''page.screenshot: Target page has been closed''"]
  note u = C2_teardown_errors_propagate [where en = quiet and n = "''login''" and now = 1000
      and tr = "[]" and st = Passed]
  note v = C2_teardown_errors_propagate [where en = context_closed and n = "''login''"
      and now = 1000 and tr = "[]" and st = Passed]
  from t h have "fixtures_afterEach page_closed ''login'' Failed 1000 [] =
         ([] @ [Log Error (''[FAIL] Test failed: '' @ ''login''),
                Log Info (''ALLURE: Adding step: Test failed: '' @ ''login''),
                AllureStep (''Test failed: '' @ ''login'') None,
                Ext (Screenshot (''reports/screenshots/failure_'' @ show_int 1000 @ ''.png'') True)],
          Inl (JsError ''Error'' ''page.screenshot: Target page has been closed''))"
    by blast
  then have a: "snd (fixtures_afterEach page_closed ''login'' Failed 1000 [])
       = Inl (JsError ''Error'' ''page.screenshot: Target page has been closed'')"
    by simp
  from u q have b: "snd (fixtures_afterEach quiet ''login'' Passed 1000 []) = Inr ()"
    by blast
  from v p have "fixtures_afterEach context_closed ''login'' Passed 1000 [] =
         (case fails context_closed ([] @ reported ''login'' Passed 1000) ClearCookies of
            Some e1 \<Rightarrow> ([] @ reported ''login'' Passed 1000 @ [Ext ClearCookies], Inl e1)
          | None \<Rightarrow>
              ([] @ reported ''login'' Passed 1000 @ [Ext ClearCookies, Ext EvaluateClearStorage],
               case fails context_closed ([] @ reported ''login'' Passed 1000 @ [Ext ClearCookies])
                      EvaluateClearStorage of
                 Some e2 \<Rightarrow> Inl e2
               | None \<Rightarrow> Inr ()))"
    by blast
  then have d: "fixtures_afterEach context_closed ''login'' Passed 1000 [] =
       ([Log Info ''[PASS] Test passed: login'',
         Log Info ''ALLURE: Adding step: Test passed: login'',
         AllureStep ''Test passed: login'' None,
         Ext ClearCookies],
        Inl (JsError ''Error'' ''browserContext.clearCookies: Target context has been closed''))"
    by (simp only: c option.case) (simp add: reported_def)
  from h a b c d show ?thesis by simp
qed
section \<open>ActionUtils: claim C5\<close>

lemma getLocator_run:
  "page opts = Some p \<Longrightarrow>
   io_bind (getLocatorWithStableAndVisibleOptions en i opts) k tr =
     (case fails en (tr @ map Ext (resolve_calls i))
             (WaitForVisible (locator_of i) (timeout_or_default opts)) of
        None \<Rightarrow> k (locator_of i)
                 (tr @ map Ext (resolve_calls i)
                     @ [Ext (WaitForVisible (locator_of i) (timeout_or_default opts))])
      | Some e \<Rightarrow> (tr @ map Ext (resolve_calls i)
                      @ [Ext (WaitForVisible (locator_of i) (timeout_or_default opts))], Inl e))"
  by (cases i)
     (simp_all add: getLocatorWithStableAndVisibleOptions_def resolve_def resolve_calls_def
        locator_of_def io_bind_def io_then_def emit_def io_return_def ext_def
        split: option.splits)

lemma getLocator_no_page:
  "page opts = None \<Longrightarrow>
   io_bind (getLocatorWithStableAndVisibleOptions en i opts) k tr =
     (tr, Inl (JsError ''Error'' ''Page is required for locator operations''))"
  by (simp add: getLocatorWithStableAndVisibleOptions_def io_bind_def io_throw_def new_Error_def)

lemma timeout_given: "timeout opts = Some t \<Longrightarrow> t \<noteq> 0 \<Longrightarrow> timeout_or_default opts = t"
  by (simp add: timeout_or_default_def)

lemma timeout_defaulted:
  "timeout opts = None \<or> timeout opts = Some 0 \<Longrightarrow> timeout_or_default opts = 30000"
  by (auto simp: timeout_or_default_def)

lemma io_bind_then: "io_bind (io_then m k) g = io_then m (io_bind k g)"
  by (simp add: io_then_def io_bind_assoc)

lemma ext_str_run:
  "io_bind (ext_str en c) k tr =
     (case fails en tr c of None \<Rightarrow> k (answer_str en tr c) (tr @ [Ext c])
                          | Some e \<Rightarrow> (tr @ [Ext c], Inl e))"
  by (simp add: io_bind_def ext_str_def split: option.splits)

lemma ext_text_run:
  "io_bind (ext_text en c) k tr =
     (case fails en tr c of None \<Rightarrow> k (answer_text en tr c) (tr @ [Ext c])
                          | Some e \<Rightarrow> (tr @ [Ext c], Inl e))"
  by (simp add: io_bind_def ext_text_def split: option.splits)

lemmas action_defs =
  click_def clickAndNavigate_def clickByJS_def fill_def fillAndEnter_def fillAndTab_def
  fillAndType_def pressSequentially_def clear_def clearByJS_def check_def uncheck_def
  selectByValue_def selectByValues_def selectByText_def selectByIndex_def hover_def focus_def
  dragAndDrop_def doubleClick_def downloadFile_def uploadFiles_def scrollLocatorIntoView_def
  scrollToElement_def setElementValue_def triggerEvent_def getElementTextContent_def
  getElementInnerHTML_def getElementOuterHTML_def getElementValue_def

lemmas alert_defs = acceptAlert_def dismissAlert_def getAlertText_def

lemma resolve_run [simp]:
  "io_bind (resolve i) k tr = k (locator_of i) (tr @ map Ext (resolve_calls i))"
  by (cases i) (simp_all add: resolve_def resolve_calls_def locator_of_def io_bind_def io_return_def)

lemma element_action_without_page:
  "acts_on_element a \<Longrightarrow> page opts = None \<Longrightarrow>
   run_action en a i opts tr =
     (tr @ announced a i, Inl (JsError ''Error'' ''Page is required for locator operations''))"
  by (cases a)
     (simp_all add: action_defs getLocator_no_page io_bind_assoc io_bind_then truthy_str_def)

lemma element_action_wait_fails:
  "acts_on_element a \<Longrightarrow> page opts = Some p \<Longrightarrow>
   fails en (tr @ announced a i @ map Ext (resolve_calls i))
     (WaitForVisible (locator_of i) (timeout_or_default opts)) = Some e \<Longrightarrow>
   run_action en a i opts tr =
     (tr @ announced a i @ map Ext (resolve_calls i)
         @ [Ext (WaitForVisible (locator_of i) (timeout_or_default opts))], Inl e)"
  by (cases a)
     (simp_all add: action_defs getLocator_run io_bind_assoc io_bind_then truthy_str_def)

lemma element_action_wait_passes:
  "acts_on_element a \<Longrightarrow> page opts = Some p \<Longrightarrow>
   fails en (tr @ announced a i @ map Ext (resolve_calls i))
     (WaitForVisible (locator_of i) (timeout_or_default opts)) = None \<Longrightarrow>
   take (length tr + length (announced a i) + length (resolve_calls i) + 1
          + length (before_action a) + 1)
     (fst (run_action en a i opts tr)) =
     tr @ announced a i @ map Ext (resolve_calls i)
        @ [Ext (WaitForVisible (locator_of i) (timeout_or_default opts))]
        @ map Ext (before_action a) @ [Ext (first_action a (locator_of i) opts)]"
  by (cases a)
     (simp_all add: action_defs getLocator_run io_bind_assoc io_bind_then truthy_str_def
        ext_str_run ext_text_run io_when_def io_return_def split: option.splits)

lemma dialog_utility_run:
  "\<not> acts_on_element a \<Longrightarrow>
   run_action en a i opts tr =
     (if page opts = None
      then (tr, Inl (JsError ''Error'' ''Page is required for alert operations''))
      else (tr @ Ext (first_action a (locator_of i) opts)
               # (if a = GetAlertText then [Ext AwaitDialog] else []), Inr ()))"
  by (cases a)
     (simp_all add: alert_defs io_throw_def new_Error_def emit_def io_bind_def io_then_def
        io_return_def split: option.splits)

text \<open>
  C5 as stated fails in three ways. Called with an options bag that carries no page
  (the default bag is empty), \<^verbatim>\<open>click\<close> throws before it resolves or waits for
  anything. Called with timeout 0, it waits 30000 ms, not the caller's timeout. And
  \<^verbatim>\<open>acceptAlert\<close>, which takes an element and an options bag like the others, never
  looks at the element: where nothing ever becomes visible it registers its dialog
  handler and returns.
\<close>

theorem C5_counterexample:
  "run_action quiet Click (Selector ''#go'')
     \<lparr>page = None, timeout = Some 5, additionalText = None\<rparr> [] =
     ([Log Info ''Click: #go'',
       Log Info ''ALLURE: Adding step: Click element'',
       AllureStep ''Click element'' None],
      Inl (JsError ''Error'' ''Page is required for locator operations''))
   \<and> run_action never_visible Click (Selector ''#go'')
       \<lparr>page = Some 1, timeout = Some 0, additionalText = None\<rparr> [] =
     ([Log Info ''Click: #go'',
       Log Info ''ALLURE: Adding step: Click element'',
       AllureStep ''Click element'' None,
       Ext (Locate ''#go''),
       Ext (WaitForVisible ''#go'' 30000)],
      Inl (JsError ''TimeoutError'' ''locator.waitFor: Timeout exceeded''))
   \<and> run_action never_visible AcceptAlert (Selector ''#go'')
       \<lparr>page = Some 1, timeout = Some 5, additionalText = None\<rparr> [] =
     ([Ext (OnDialog ''accept'')], Inr ())"
  by (simp add: click_def acceptAlert_def getLocator_run getLocator_no_page
        timeout_or_default_def never_visible_def truthy_str_def resolve_calls_def
        locator_of_def emit_def)

text \<open>
  C5, amended. Take any utility of ActionUtils that is given an element (a selector or a
  locator) and an options bag. The three dialog utilities (acceptAlert, dismissAlert,
  getAlertText) never resolve or wait for the element: without a page in the options
  they throw \<^verbatim>\<open>Page is required for alert operations\<close>, with one they only register a
  dialog handler; acceptAlert and dismissAlert then return, getAlertText awaits the
  dialog and yields its text if one appears. Every other utility behaves as follows. Some of them first log and
  report their step. Without a page in the options the utility then throws
  \<^verbatim>\<open>Page is required for locator operations\<close>, having resolved and waited for nothing.
  With a page it resolves the element (one driver call for a selector, none for a
  locator) and waits for the visible state; the timeout of the wait is the caller's when
  that is a non-zero number and 30000 ms when it is absent or 0. If the wait throws (a
  TimeoutError when the element is not visible in time) the utility throws the same
  error and the wait is the last thing it did. Otherwise the next driver call is the
  utility's own action on the resolved element, after the resolution of the destination
  in dragAndDrop and the start of the download listener in downloadFile.
\<close>

theorem C5_wait_precedes_action:
  "(acts_on_element a \<and> page opts = None \<longrightarrow>
      run_action en a i opts tr =
        (tr @ announced a i, Inl (JsError ''Error'' ''Page is required for locator operations'')))
   \<and> (acts_on_element a \<and> page opts \<noteq> None \<longrightarrow>
        (case fails en (tr @ announced a i @ map Ext (resolve_calls i))
                (WaitForVisible (locator_of i) (timeout_or_default opts)) of
           Some e \<Rightarrow>
             run_action en a i opts tr =
               (tr @ announced a i @ map Ext (resolve_calls i)
                   @ [Ext (WaitForVisible (locator_of i) (timeout_or_default opts))],
                Inl e)
         | None \<Rightarrow>
             take (length tr + length (announced a i) + length (resolve_calls i) + 1
                    + length (before_action a) + 1)
               (fst (run_action en a i opts tr)) =
               tr @ announced a i @ map Ext (resolve_calls i)
                  @ [Ext (WaitForVisible (locator_of i) (timeout_or_default opts))]
                  @ map Ext (before_action a)
                  @ [Ext (first_action a (locator_of i) opts)]))
   \<and> (timeout opts = Some t \<and> t \<noteq> 0 \<longrightarrow> timeout_or_default opts = t)
   \<and> (timeout opts = None \<or> timeout opts = Some 0 \<longrightarrow> timeout_or_default opts = 30000)
   \<and> (\<not> acts_on_element a \<and> page opts = None \<longrightarrow>
        run_action en a i opts tr =
          (tr, Inl (JsError ''Error'' ''Page is required for alert operations'')))
   \<and> (\<not> acts_on_element a \<and> page opts \<noteq> None \<longrightarrow>
        fst (run_action en a i opts tr) =
          tr @ Ext (first_action a (locator_of i) opts)
             # (if a = GetAlertText then [Ext AwaitDialog] else []))
   \<and> (\<not> acts_on_element a \<and> a \<noteq> GetAlertText \<and> page opts \<noteq> None \<longrightarrow>
        snd (run_action en a i opts tr) = Inr ())
   \<and> (page opts \<noteq> None \<longrightarrow>
        getAlertText en i opts tr =
          (tr @ [Ext (OnDialog ''message, accept''), Ext AwaitDialog],
           Inr (answer_text en (tr @ [Ext (OnDialog ''message, accept'')]) AwaitDialog)))"
proof (intro conjI impI)
  assume "acts_on_element a \<and> page opts = None"
  then show "run_action en a i opts tr =
      (tr @ announced a i, Inl (JsError ''Error'' ''Page is required for locator operations''))"
    by (simp add: element_action_without_page)
next
  assume h: "acts_on_element a \<and> page opts \<noteq> None"
  then obtain p where p: "page opts = Some p"
    by auto
  show "case fails en (tr @ announced a i @ map Ext (resolve_calls i))
                (WaitForVisible (locator_of i) (timeout_or_default opts)) of
           Some e \<Rightarrow>
             run_action en a i opts tr =
               (tr @ announced a i @ map Ext (resolve_calls i)
                   @ [Ext (WaitForVisible (locator_of i) (timeout_or_default opts))],
                Inl e)
         | None \<Rightarrow>
             take (length tr + length (announced a i) + length (resolve_calls i) + 1
                    + length (before_action a) + 1)
               (fst (run_action en a i opts tr)) =
               tr @ announced a i @ map Ext (resolve_calls i)
                  @ [Ext (WaitForVisible (locator_of i) (timeout_or_default opts))]
                  @ map Ext (before_action a)
                  @ [Ext (first_action a (locator_of i) opts)]"
  proof (cases "fails en (tr @ announced a i @ map Ext (resolve_calls i))
                (WaitForVisible (locator_of i) (timeout_or_default opts))")
    case None
    with h p element_action_wait_passes [of a opts p en tr i] show ?thesis
      by simp
  next
    case (Some e)
    with h p element_action_wait_fails [of a opts p en tr i e] show ?thesis
      by simp
  qed
next
  assume "timeout opts = Some t \<and> t \<noteq> 0"
  then show "timeout_or_default opts = t"
    by (simp add: timeout_given)
next
  assume "timeout opts = None \<or> timeout opts = Some 0"
  then show "timeout_or_default opts = 30000"
    by (rule timeout_defaulted)
next
  assume "\<not> acts_on_element a \<and> page opts = None"
  then show "run_action en a i opts tr =
      (tr, Inl (JsError ''Error'' ''Page is required for alert operations''))"
    by (simp add: dialog_utility_run)
next
  assume "\<not> acts_on_element a \<and> page opts \<noteq> None"
  then show "fst (run_action en a i opts tr) =
      tr @ Ext (first_action a (locator_of i) opts)
         # (if a = GetAlertText then [Ext AwaitDialog] else [])"
    by (simp add: dialog_utility_run)
next
  assume "\<not> acts_on_element a \<and> a \<noteq> GetAlertText \<and> page opts \<noteq> None"
  then show "snd (run_action en a i opts tr) = Inr ()"
    by (simp add: dialog_utility_run)
next
  assume "page opts \<noteq> None"
  then show "getAlertText en i opts tr =
      (tr @ [Ext (OnDialog ''message, accept''), Ext AwaitDialog],
       Inr (answer_text en (tr @ [Ext (OnDialog ''message, accept'')]) AwaitDialog))"
    by (auto simp add: getAlertText_def)
qed

theorem C5_witness:
  "acts_on_element Click
   \<and> page \<lparr>page = None, timeout = Some 5, additionalText = None\<rparr> = None
   \<and> run_action quiet Click (Selector ''#go'') \<lparr>page = None, timeout = Some 5, additionalText = None\<rparr> [] =
       ([Log Info ''Click: #go'',
        Log Info ''ALLURE: Adding step: Click element'',
        AllureStep ''Click element'' None],
        Inl (JsError ''Error'' ''Page is required for locator operations''))
   \<and> page \<lparr>page = Some 1, timeout = Some 0, additionalText = None\<rparr> = Some 1
   \<and> timeout \<lparr>page = Some 1, timeout = Some 0, additionalText = None\<rparr> = Some 0
   \<and> timeout_or_default \<lparr>page = Some 1, timeout = Some 0, additionalText = None\<rparr> = 30000
   \<and> run_action never_visible Click (Selector ''#go'') \<lparr>page = Some 1, timeout = Some 0, additionalText = None\<rparr> [] =
       ([Log Info ''Click: #go'',
        Log Info ''ALLURE: Adding step: Click element'',
        AllureStep ''Click element'' None,
        Ext (Locate ''#go''),
        Ext (WaitForVisible ''#go'' 30000)],
        Inl (JsError ''TimeoutError'' ''locator.waitFor: Timeout exceeded''))
   \<and> timeout \<lparr>page = Some 1, timeout = Some 5, additionalText = None\<rparr> = Some 5
   \<and> (5::int) \<noteq> 0
   \<and> timeout_or_default \<lparr>page = Some 1, timeout = Some 5, additionalText = None\<rparr> = 5
   \<and> take 6 (fst (run_action quiet (Fill ''abc'') (Selector ''#go'') \<lparr>page = Some 1, timeout = Some 5, additionalText = None\<rparr> [])) =
       [Log Info ''Fill: abc'',
        Log Info ''ALLURE: Adding step: Fill input: abc'',
        AllureStep ''Fill input: abc'' None,
        Ext (Locate ''#go''),
        Ext (WaitForVisible ''#go'' 5),
        Ext (Act ''#go'' ''fill: abc'')]
   \<and> \<not> acts_on_element AcceptAlert
   \<and> run_action quiet AcceptAlert (Handle ''#go'') \<lparr>page = None, timeout = Some 5, additionalText = None\<rparr> [] =
       ([], Inl (JsError ''Error'' ''Page is required for alert operations''))
   \<and> \<not> acts_on_element DismissAlert
   \<and> DismissAlert \<noteq> GetAlertText
   \<and> snd (run_action quiet DismissAlert (Handle ''#go'') \<lparr>page = Some 1, timeout = Some 5, additionalText = None\<rparr> []) = Inr ()
   \<and> fst (run_action quiet GetAlertText (Handle ''#go'') \<lparr>page = Some 1, timeout = Some 5, additionalText = None\<rparr> []) =
       [Ext (OnDialog ''message, accept''), Ext AwaitDialog]
   \<and> getAlertText quiet (Handle ''#go'') \<lparr>page = Some 1, timeout = Some 5, additionalText = None\<rparr> [] =
       ([Ext (OnDialog ''message, accept''), Ext AwaitDialog], Inr None)"
proof -
  note t1 = C5_wait_precedes_action [where a = Click and en = quiet and i = "Selector ''#go''"
      and tr = "[]" and t = 5 and opts = "\<lparr>page = None, timeout = Some 5, additionalText = None\<rparr>"]
  note t2 = C5_wait_precedes_action [where a = Click and en = never_visible
      and i = "Selector ''#go''" and tr = "[]" and t = 5 and opts = "\<lparr>page = Some 1, timeout = Some 0, additionalText = None\<rparr>"]
  note t3 = C5_wait_precedes_action [where a = "Fill ''abc''" and en = quiet
      and i = "Selector ''#go''" and tr = "[]" and t = 5 and opts = "\<lparr>page = Some 1, timeout = Some 5, additionalText = None\<rparr>"]
  note t4 = C5_wait_precedes_action [where a = AcceptAlert and en = quiet
      and i = "Handle ''#go''" and tr = "[]" and t = 5 and opts = "\<lparr>page = None, timeout = Some 5, additionalText = None\<rparr>"]
  note t5 = C5_wait_precedes_action [where a = GetAlertText and en = quiet
      and i = "Handle ''#go''" and tr = "[]" and t = 5 and opts = "\<lparr>page = Some 1, timeout = Some 5, additionalText = None\<rparr>"]
  note t6 = C5_wait_precedes_action [where a = DismissAlert and en = quiet
      and i = "Handle ''#go''" and tr = "[]" and t = 5 and opts = "\<lparr>page = Some 1, timeout = Some 5, additionalText = None\<rparr>"]
  have h1: "acts_on_element Click \<and> page \<lparr>page = None, timeout = Some 5, additionalText = None\<rparr> = None"
    by simp
  have h2: "acts_on_element Click \<and> page \<lparr>page = Some 1, timeout = Some 0, additionalText = None\<rparr> \<noteq> None"
    by simp
  have h3: "acts_on_element (Fill ''abc'') \<and> page \<lparr>page = Some 1, timeout = Some 5, additionalText = None\<rparr> \<noteq> None"
    by simp
  have h4: "\<not> acts_on_element AcceptAlert \<and> page \<lparr>page = None, timeout = Some 5, additionalText = None\<rparr> = None"
    by simp
  have h5: "\<not> acts_on_element GetAlertText \<and> page \<lparr>page = Some 1, timeout = Some 5, additionalText = None\<rparr> \<noteq> None"
    by simp
  have z: "timeout \<lparr>page = Some 1, timeout = Some 0, additionalText = None\<rparr> = None \<or> timeout \<lparr>page = Some 1, timeout = Some 0, additionalText = None\<rparr> = Some 0"
    by simp
  have g: "timeout \<lparr>page = Some 1, timeout = Some 5, additionalText = None\<rparr> = Some 5 \<and> (5::int) \<noteq> 0"
    by simp
  have f: "\<And>h l d. fails never_visible h (WaitForVisible l d) = Some (JsError ''TimeoutError'' ''locator.waitFor: Timeout exceeded'')"
    by (simp add: never_visible_def)
  have q: "\<And>h c. fails quiet h c = None"
    by simp
  from t1 h1 have "run_action quiet Click (Selector ''#go'') \<lparr>page = None, timeout = Some 5, additionalText = None\<rparr> [] =
      ([] @ announced Click (Selector ''#go''),
       Inl (JsError ''Error'' ''Page is required for locator operations''))"
    by blast
  then have a: "run_action quiet Click (Selector ''#go'') \<lparr>page = None, timeout = Some 5, additionalText = None\<rparr> [] =
       ([Log Info ''Click: #go'',
        Log Info ''ALLURE: Adding step: Click element'',
        AllureStep ''Click element'' None],
        Inl (JsError ''Error'' ''Page is required for locator operations''))"
    by simp
  from t2 z have b: "timeout_or_default \<lparr>page = Some 1, timeout = Some 0, additionalText = None\<rparr> = 30000"
    by blast
  from t2 h2 have "case fails never_visible
             ([] @ announced Click (Selector ''#go'') @ map Ext (resolve_calls (Selector ''#go'')))
             (WaitForVisible (locator_of (Selector ''#go'')) (timeout_or_default \<lparr>page = Some 1, timeout = Some 0, additionalText = None\<rparr>)) of
           Some e \<Rightarrow>
             run_action never_visible Click (Selector ''#go'') \<lparr>page = Some 1, timeout = Some 0, additionalText = None\<rparr> [] =
               ([] @ announced Click (Selector ''#go'') @ map Ext (resolve_calls (Selector ''#go''))
                   @ [Ext (WaitForVisible (locator_of (Selector ''#go''))
                             (timeout_or_default \<lparr>page = Some 1, timeout = Some 0, additionalText = None\<rparr>))],
                Inl e)
         | None \<Rightarrow>
             take (length ([]::trace) + length (announced Click (Selector ''#go''))
                    + length (resolve_calls (Selector ''#go'')) + 1
                    + length (before_action Click) + 1)
               (fst (run_action never_visible Click (Selector ''#go'') \<lparr>page = Some 1, timeout = Some 0, additionalText = None\<rparr> [])) =
               [] @ announced Click (Selector ''#go'') @ map Ext (resolve_calls (Selector ''#go''))
                  @ [Ext (WaitForVisible (locator_of (Selector ''#go''))
                            (timeout_or_default \<lparr>page = Some 1, timeout = Some 0, additionalText = None\<rparr>))]
                  @ map Ext (before_action Click)
                  @ [Ext (first_action Click (locator_of (Selector ''#go'')) \<lparr>page = Some 1, timeout = Some 0, additionalText = None\<rparr>)]"
    by blast
  then have "run_action never_visible Click (Selector ''#go'') \<lparr>page = Some 1, timeout = Some 0, additionalText = None\<rparr> [] =
               ([] @ announced Click (Selector ''#go'') @ map Ext (resolve_calls (Selector ''#go''))
                   @ [Ext (WaitForVisible (locator_of (Selector ''#go''))
                             (timeout_or_default \<lparr>page = Some 1, timeout = Some 0, additionalText = None\<rparr>))],
                Inl (JsError ''TimeoutError'' ''locator.waitFor: Timeout exceeded''))"
    by (simp only: f option.case)
  then have c: "run_action never_visible Click (Selector ''#go'') \<lparr>page = Some 1, timeout = Some 0, additionalText = None\<rparr> [] =
       ([Log Info ''Click: #go'',
        Log Info ''ALLURE: Adding step: Click element'',
        AllureStep ''Click element'' None,
        Ext (Locate ''#go''),
        Ext (WaitForVisible ''#go'' 30000)],
        Inl (JsError ''TimeoutError'' ''locator.waitFor: Timeout exceeded''))"
    by (simp only: b) (simp add: resolve_calls_def locator_of_def)
  from t3 g have d: "timeout_or_default \<lparr>page = Some 1, timeout = Some 5, additionalText = None\<rparr> = 5"
    by blast
  from t3 h3 have "case fails quiet
             ([] @ announced (Fill ''abc'') (Selector ''#go'')
                 @ map Ext (resolve_calls (Selector ''#go'')))
             (WaitForVisible (locator_of (Selector ''#go'')) (timeout_or_default \<lparr>page = Some 1, timeout = Some 5, additionalText = None\<rparr>)) of
           Some e \<Rightarrow>
             run_action quiet (Fill ''abc'') (Selector ''#go'') \<lparr>page = Some 1, timeout = Some 5, additionalText = None\<rparr> [] =
               ([] @ announced (Fill ''abc'') (Selector ''#go'')
                   @ map Ext (resolve_calls (Selector ''#go''))
                   @ [Ext (WaitForVisible (locator_of (Selector ''#go''))
                             (timeout_or_default \<lparr>page = Some 1, timeout = Some 5, additionalText = None\<rparr>))],
                Inl e)
         | None \<Rightarrow>
             take (length ([]::trace) + length (announced (Fill ''abc'') (Selector ''#go''))
                    + length (resolve_calls (Selector ''#go'')) + 1
                    + length (before_action (Fill ''abc'')) + 1)
               (fst (run_action quiet (Fill ''abc'') (Selector ''#go'') \<lparr>page = Some 1, timeout = Some 5, additionalText = None\<rparr> [])) =
               [] @ announced (Fill ''abc'') (Selector ''#go'')
                  @ map Ext (resolve_calls (Selector ''#go''))
                  @ [Ext (WaitForVisible (locator_of (Selector ''#go''))
                            (timeout_or_default \<lparr>page = Some 1, timeout = Some 5, additionalText = None\<rparr>))]
                  @ map Ext (before_action (Fill ''abc''))
                  @ [Ext (first_action (Fill ''abc'') (locator_of (Selector ''#go'')) \<lparr>page = Some 1, timeout = Some 5, additionalText = None\<rparr>)]"
    by blast
  then have "take (length ([]::trace) + length (announced (Fill ''abc'') (Selector ''#go''))
                    + length (resolve_calls (Selector ''#go'')) + 1
                    + length (before_action (Fill ''abc'')) + 1)
               (fst (run_action quiet (Fill ''abc'') (Selector ''#go'') \<lparr>page = Some 1, timeout = Some 5, additionalText = None\<rparr> [])) =
               [] @ announced (Fill ''abc'') (Selector ''#go'')
                  @ map Ext (resolve_calls (Selector ''#go''))
                  @ [Ext (WaitForVisible (locator_of (Selector ''#go''))
                            (timeout_or_default \<lparr>page = Some 1, timeout = Some 5, additionalText = None\<rparr>))]
                  @ map Ext (before_action (Fill ''abc''))
                  @ [Ext (first_action (Fill ''abc'') (locator_of (Selector ''#go'')) \<lparr>page = Some 1, timeout = Some 5, additionalText = None\<rparr>)]"
    by (simp only: q option.case)
  then have e: "take 6 (fst (run_action quiet (Fill ''abc'') (Selector ''#go'') \<lparr>page = Some 1, timeout = Some 5, additionalText = None\<rparr> [])) =
       [Log Info ''Fill: abc'',
        Log Info ''ALLURE: Adding step: Fill input: abc'',
        AllureStep ''Fill input: abc'' None,
        Ext (Locate ''#go''),
        Ext (WaitForVisible ''#go'' 5),
        Ext (Act ''#go'' ''fill: abc'')]"
    by (simp only: d) (simp add: resolve_calls_def locator_of_def eval_nat_numeral)
  from t4 h4 have k: "run_action quiet AcceptAlert (Handle ''#go'') \<lparr>page = None, timeout = Some 5, additionalText = None\<rparr> [] =
       ([], Inl (JsError ''Error'' ''Page is required for alert operations''))"
    by blast
  from t5 h5 have "fst (run_action quiet GetAlertText (Handle ''#go'') \<lparr>page = Some 1, timeout = Some 5, additionalText = None\<rparr> []) =
       [] @ Ext (first_action GetAlertText (locator_of (Handle ''#go'')) \<lparr>page = Some 1, timeout = Some 5, additionalText = None\<rparr>)
          # (if GetAlertText = GetAlertText then [Ext AwaitDialog] else [])"
    by blast
  then have m: "fst (run_action quiet GetAlertText (Handle ''#go'') \<lparr>page = Some 1, timeout = Some 5, additionalText = None\<rparr> []) =
       [Ext (OnDialog ''message, accept''), Ext AwaitDialog]"
    by simp
  have h6: "\<not> acts_on_element DismissAlert \<and> DismissAlert \<noteq> GetAlertText
      \<and> page \<lparr>page = Some 1, timeout = Some 5, additionalText = None\<rparr> \<noteq> None"
    by simp
  from t6 h6 have n: "snd (run_action quiet DismissAlert (Handle ''#go'') \<lparr>page = Some 1, timeout = Some 5, additionalText = None\<rparr> []) = Inr ()"
    by blast
  have h7: "page \<lparr>page = Some 1, timeout = Some 5, additionalText = None\<rparr> \<noteq> None"
    by simp
  from t5 h7 have "getAlertText quiet (Handle ''#go'') \<lparr>page = Some 1, timeout = Some 5, additionalText = None\<rparr> [] =
       ([] @ [Ext (OnDialog ''message, accept''), Ext AwaitDialog],
        Inr (answer_text quiet ([] @ [Ext (OnDialog ''message, accept'')]) AwaitDialog))"
    by blast
  then have r: "getAlertText quiet (Handle ''#go'') \<lparr>page = Some 1, timeout = Some 5, additionalText = None\<rparr> [] =
       ([Ext (OnDialog ''message, accept''), Ext AwaitDialog], Inr None)"
    by (simp add: quiet_def)
  from h1 a z b c g d e h4 k h6 n m r show ?thesis
    by simp
qed
section \<open>Global teardown: claim C7\<close>

lemma extends_basic [intro!]:
  "extends (io_return x)" "extends (io_throw e)" "extends (emit ev)"
  "extends (ext en c)" "extends (ext_total_bool en c)" "extends (ext_num en c)"
  "extends (ext_list en c)"
  "extends (logger_info s)" "extends (logger_warn_meta s e)" "extends (logger_error_meta s e)"
  by (simp_all add: extends_def io_return_def io_throw_def emit_def ext_def ext_total_bool_def
        ext_num_def ext_list_def logger_info_def logger_warn_meta_def logger_error_meta_def)

lemma extends_bind [intro!]:
  assumes "extends m" "\<And>x. extends (f x)"
  shows "extends (io_bind m f)"
  unfolding extends_def
proof
  fix tr
  from assms(1) obtain evs where m: "fst (m tr) = tr @ evs"
    unfolding extends_def by blast
  show "\<exists>evs. fst (io_bind m f tr) = tr @ evs"
  proof (cases "m tr")
    case (Pair tr' r)
    with m have tr': "tr' = tr @ evs" by simp
    show ?thesis
    proof (cases r)
      case (Inl e)
      with Pair tr' show ?thesis by (simp add: io_bind_def)
    next
      case (Inr x)
      from assms(2) [of x] obtain evs' where "fst (f x tr') = tr' @ evs'"
        unfolding extends_def by blast
      with Pair Inr tr' show ?thesis by (simp add: io_bind_def)
    qed
  qed
qed

lemma extends_then [intro!]: "extends m \<Longrightarrow> extends k \<Longrightarrow> extends (io_then m k)"
  unfolding io_then_def by (rule extends_bind)

lemma extends_catch [intro!]:
  assumes "extends m" "\<And>e. extends (h e)"
  shows "extends (io_catch m h)"
  unfolding extends_def
proof
  fix tr
  from assms(1) obtain evs where m: "fst (m tr) = tr @ evs"
    unfolding extends_def by blast
  show "\<exists>evs. fst (io_catch m h tr) = tr @ evs"
  proof (cases "m tr")
    case (Pair tr' r)
    with m have tr': "tr' = tr @ evs" by simp
    show ?thesis
    proof (cases r)
      case (Inr x)
      with Pair tr' show ?thesis by (simp add: io_catch_def)
    next
      case (Inl e)
      from assms(2) [of e] obtain evs' where "fst (h e tr') = tr' @ evs'"
        unfolding extends_def by blast
      with Pair Inl tr' show ?thesis by (simp add: io_catch_def)
    qed
  qed
qed

lemma extends_when [intro!]: "extends m \<Longrightarrow> extends (io_when b m)"
  by (simp add: io_when_def extends_basic)

lemma extends_for_each [intro!]: "(\<And>x. extends (body x)) \<Longrightarrow> extends (for_each body xs)"
  by (induction xs) (simp_all add: extends_basic extends_then)


lemma extends_cleanup_directory [intro!]: "extends (cleanup_directory en dir)"
  unfolding cleanup_directory_def by (intro extends_bind extends_when extends_then extends_basic)

lemma extends_cleanup_log_file [intro!]: "extends (cleanup_log_file en ago file)"
  unfolding cleanup_log_file_def Let_def
  by (intro extends_bind extends_when extends_then extends_basic)

lemma extends_cleanup_logs [intro!]: "extends (cleanup_logs en now)"
  unfolding cleanup_logs_def Let_def
  by (intro extends_bind extends_when extends_for_each extends_cleanup_log_file extends_basic)

lemma extends_cleanupTempFiles: "extends (cleanupTempFiles en now)"
  unfolding cleanupTempFiles_def
  by (intro extends_then extends_catch extends_for_each extends_cleanup_directory
        extends_cleanup_logs extends_basic)






















end
